theory Spec2Isabelle
  imports Main "HOL-Library.Sublist" "HOL-Library.Product_Lexorder" "HOL-Library.Word"
begin

section \<open>JavaScript values of the chat client\<close>

text \<open>
  The client is three JavaScript modules: \<^verbatim>\<open>policyTransport.js\<close> (the session id in
  localStorage and the POST to \<^verbatim>\<open>/chat\<close>), \<^verbatim>\<open>usePolicyChat.js\<close> (a React hook around
  it) and \<^verbatim>\<open>policyChatUI.jsx\<close> (the component with its handlers).

  A JavaScript string is the list of its UTF-16 code units, each a word of 16 bits, so
  that \<^verbatim>\<open>length\<close>, \<^verbatim>\<open>slice\<close> and \<^verbatim>\<open>trim\<close> count and see what the code does; \<open>js\<close> gives the
  code units of an ASCII literal.

  A JSON value is what \<^verbatim>\<open>JSON.parse\<close> returns. An object is its list of properties in
  order; numbers are integers, the code does no arithmetic on them. The value of a
  property that may be missing is a \<open>json option\<close>, with \<open>None\<close> for \<^verbatim>\<open>undefined\<close>. A thrown
  value carries its \<^verbatim>\<open>name\<close> and its \<^verbatim>\<open>message\<close>.
\<close>

type_synonym jstring = "16 word list"

definition js :: "string \<Rightarrow> jstring" where
  "js s = map of_char s"

datatype json =
    JNull
  | JBool bool
  | JNum int
  | JStr jstring
  | JArr "json list"
  | JObj "(jstring \<times> json) list"

datatype exn = SyntaxError jstring | TypeError jstring | Error jstring

fun exn_message :: "exn \<Rightarrow> jstring" where
  "exn_message (SyntaxError m) = m"
| "exn_message (TypeError m) = m"
| "exn_message (Error m) = m"

fun exn_name :: "exn \<Rightarrow> jstring" where
  "exn_name (SyntaxError m) = js ''SyntaxError''"
| "exn_name (TypeError m) = js ''TypeError''"
| "exn_name (Error m) = js ''Error''"

text \<open>
  Truthiness (\<^verbatim>\<open>!v\<close> is its negation): \<^verbatim>\<open>null\<close>, \<^verbatim>\<open>undefined\<close>, \<^verbatim>\<open>false\<close>, \<^verbatim>\<open>0\<close> and the empty
  string are falsy, every array and object is truthy. \<open>truthy\<close> is the same on a value
  that is a string or \<^verbatim>\<open>null\<close> (\<open>None\<close>), with \<open>id_js\<close> its JavaScript value; \<open>falsy_or a b\<close> is
  \<^verbatim>\<open>a || b\<close> on such values.
\<close>

fun js_truthy :: "json \<Rightarrow> bool" where
  "js_truthy JNull = False"
| "js_truthy (JBool b) = b"
| "js_truthy (JNum n) = (n \<noteq> 0)"
| "js_truthy (JStr s) = (s \<noteq> [])"
| "js_truthy (JArr xs) = True"
| "js_truthy (JObj ps) = True"

definition opt_truthy :: "json option \<Rightarrow> bool" where
  "opt_truthy v = (case v of None \<Rightarrow> False | Some x \<Rightarrow> js_truthy x)"

definition truthy :: "jstring option \<Rightarrow> bool" where
  "truthy v = (case v of None \<Rightarrow> False | Some s \<Rightarrow> s \<noteq> [])"

definition id_js :: "jstring option \<Rightarrow> json" where
  "id_js v = (case v of None \<Rightarrow> JNull | Some s \<Rightarrow> JStr s)"

definition falsy_or :: "jstring option \<Rightarrow> jstring option \<Rightarrow> jstring option" where
  "falsy_or a b = (if truthy a then a else b)"

text \<open>Decimal digits of a number, as a template literal prints \<^verbatim>\<open>res.status\<close>.\<close>

function show_nat :: "nat \<Rightarrow> string" where
  "show_nat n =
     (if n < 10 then [char_of (48 + n)]
      else show_nat (n div 10) @ [char_of (48 + n mod 10)])"
  by pat_completeness auto
termination
  by (relation "measure id") auto

declare show_nat.simps [simp del]

text \<open>
  \<^verbatim>\<open>String(v)\<close>, which \<^verbatim>\<open>localStorage.setItem\<close> and a template literal apply to a value that
  is no string: an array is its elements joined by commas, with \<^verbatim>\<open>null\<close> as the empty
  string, and a plain object is \<^verbatim>\<open>[object Object]\<close>.
\<close>

fun join_comma :: "jstring list \<Rightarrow> jstring" where
  "join_comma [] = []"
| "join_comma [x] = x"
| "join_comma (x # y # ys) = x @ js '','' @ join_comma (y # ys)"

fun to_string :: "json \<Rightarrow> jstring" where
  "to_string JNull = js ''null''"
| "to_string (JBool b) = (if b then js ''true'' else js ''false'')"
| "to_string (JNum n) =
     (if n < 0 then js ''-'' @ js (show_nat (nat (- n))) else js (show_nat (nat n)))"
| "to_string (JStr s) = s"
| "to_string (JArr xs) = join_comma (map (\<lambda>x. if x = JNull then [] else to_string x) xs)"
| "to_string (JObj ps) = js ''[object Object]''"

definition opt_to_string :: "json option \<Rightarrow> jstring" where
  "opt_to_string v = (case v of None \<Rightarrow> js ''undefined'' | Some x \<Rightarrow> to_string x)"

text \<open>
  \<^verbatim>\<open>v?.name\<close> for one of the property names the client reads (\<^verbatim>\<open>id\<close>, \<^verbatim>\<open>session_id\<close>,
  \<^verbatim>\<open>answer\<close>, \<^verbatim>\<open>sources\<close>; none is a built-in property of a string, number or array): an
  object gives its property, any other value \<^verbatim>\<open>undefined\<close>.
\<close>

definition get_prop :: "json \<Rightarrow> jstring \<Rightarrow> json option" where
  "get_prop v name = (case v of JObj ps \<Rightarrow> map_of ps name | _ \<Rightarrow> None)"

section \<open>localStorage\<close>

text \<open>
  The client uses three kinds of keys. Their names never collide (\<open>key_name\<close> is
  injective, proved below), so the store is modelled as one component per kind; the
  messages of a session are found under the string form of its id.

  The value under \<^verbatim>\<open>policyChat.sessionId\<close> is read as it is. The values under the other
  keys are only ever read through \<^verbatim>\<open>JSON.parse\<close> and written through \<^verbatim>\<open>JSON.stringify\<close>,
  so a stored text is represented by what \<^verbatim>\<open>JSON.parse\<close> makes of it: \<open>Malformed\<close> when it
  throws a SyntaxError, \<open>Parsed v\<close> when it returns \<open>v\<close>. Writing \<^verbatim>\<open>JSON.stringify(v)\<close> stores
  \<open>Parsed v\<close>: the two functions are inverse on the plain arrays and objects the client
  writes.
\<close>

datatype key = SESSION_STORAGE_KEY | SESSIONS_KEY | MSG_KEY jstring

fun key_name :: "key \<Rightarrow> jstring" where
  "key_name SESSION_STORAGE_KEY = js ''policyChat.sessionId''"
| "key_name SESSIONS_KEY = js ''policyChat.sessions''"
| "key_name (MSG_KEY i) = js ''policyChat.messages.'' @ i"

datatype cell = Malformed | Parsed json

record storage =
  sessionId_item :: "jstring option"
  sessions_item :: "cell option"
  messages_item :: "jstring \<Rightarrow> cell option"

section \<open>policyTransport.js\<close>

text \<open>
  \<^verbatim>\<open>setSessionId(id)\<close> takes whatever value it is given: it returns on a falsy one and
  stores the string form of any other.
\<close>

definition getSessionId :: "storage \<Rightarrow> jstring option" where
  "getSessionId ls = sessionId_item ls"

definition setSessionId :: "json option \<Rightarrow> storage \<Rightarrow> storage" where
  "setSessionId i ls =
     (case i of
        None \<Rightarrow> ls
      | Some v \<Rightarrow> if \<not> js_truthy v then ls else ls\<lparr>sessionId_item := Some (to_string v)\<rparr>)"

definition clearSessionId :: "storage \<Rightarrow> storage" where
  "clearSessionId ls = ls\<lparr>sessionId_item := None\<rparr>"

text \<open>
  \<^verbatim>\<open>sendChatMessage\<close> up to its \<^verbatim>\<open>await fetch\<close>: the object handed to \<^verbatim>\<open>JSON.stringify\<close> as
  the body of the POST. The override is a JavaScript value, \<open>JNull\<close> when the caller
  passes \<^verbatim>\<open>null\<close> or nothing.
\<close>

definition chat_request_body :: "jstring \<Rightarrow> json \<Rightarrow> storage \<Rightarrow> json" where
  "chat_request_body message overrideSessionId ls =
     (let session_id = (if overrideSessionId = JNull then id_js (getSessionId ls)
                        else overrideSessionId)
      in if js_truthy session_id
         then JObj [(js ''session_id'', session_id), (js ''message'', JStr message)]
         else JObj [(js ''message'', JStr message)])"

text \<open>
  What \<^verbatim>\<open>fetch\<close> settles with. \<open>res_json\<close> is the outcome of \<^verbatim>\<open>res.json()\<close>, any JSON value
  or a rejection; \<open>res_text\<close> is the outcome of \<^verbatim>\<open>res.text()\<close> (\<open>None\<close> when it rejects).
\<close>

record response =
  res_ok :: bool
  res_status :: nat
  res_statusText :: jstring
  res_text :: "jstring option"
  res_json :: "exn + json"

datatype fetch_result = Rejected exn | Response response

text \<open>The message of the error thrown for a response that is not \<^verbatim>\<open>ok\<close>.\<close>

definition backend_error :: "response \<Rightarrow> jstring" where
  "backend_error res =
     (let body = (case res_text res of None \<Rightarrow> [] | Some t \<Rightarrow> t) in
      js ''Backend error ('' @ js (show_nat (res_status res)) @ js ''): ''
        @ (if body \<noteq> [] then body else res_statusText res))"

text \<open>\<^verbatim>\<open>sendChatMessage\<close> from the point where \<^verbatim>\<open>fetch\<close> has settled.\<close>

definition sendChatMessage_settled ::
  "fetch_result \<Rightarrow> storage \<Rightarrow> (exn + json) \<times> storage" where
  "sendChatMessage_settled fr ls =
     (case fr of
        Rejected e \<Rightarrow> (Inl e, ls)
      | Response res \<Rightarrow>
          if \<not> res_ok res then (Inl (Error (backend_error res)), ls)
          else
            (case res_json res of
               Inl e \<Rightarrow> (Inl e, ls)
             | Inr d \<Rightarrow>
                 (Inr d, if opt_truthy (get_prop d (js ''session_id''))
                         then setSessionId (get_prop d (js ''session_id'')) ls
                         else ls)))"

text \<open>The whole function, for a server that answers the body \<open>b\<close> with \<open>fetch b\<close>.\<close>

definition sendChatMessage ::
  "(json \<Rightarrow> fetch_result) \<Rightarrow> jstring \<Rightarrow> json \<Rightarrow> storage \<Rightarrow> (exn + json) \<times> storage" where
  "sendChatMessage fetch message overrideSessionId ls =
     sendChatMessage_settled (fetch (chat_request_body message overrideSessionId ls)) ls"

section \<open>policyChatUI.jsx: reading and writing localStorage\<close>

text \<open>
  A JavaScript function can throw, so the result of one is \<open>exn + 'a\<close>, with \<open>Inl\<close> the
  thrown value; \<open>bind_exn\<close> sequences two of them. \<open>JSON_parse\<close> is \<^verbatim>\<open>JSON.parse\<close> applied to
  what \<^verbatim>\<open>localStorage.getItem\<close> returned: for an absent key that is \<^verbatim>\<open>null\<close>, which
  \<^verbatim>\<open>JSON.parse\<close> reads as the text \<^verbatim>\<open>null\<close>.
\<close>

definition bind_exn :: "exn + 'a \<Rightarrow> ('a \<Rightarrow> exn + 'b) \<Rightarrow> exn + 'b" where
  "bind_exn r f = (case r of Inl e \<Rightarrow> Inl e | Inr v \<Rightarrow> f v)"

definition JSON_parse :: "cell option \<Rightarrow> exn + json" where
  "JSON_parse item =
     (case item of
        None \<Rightarrow> Inr JNull
      | Some Malformed \<Rightarrow> Inl (SyntaxError (js ''Unexpected token''))
      | Some (Parsed v) \<Rightarrow> Inr v)"

definition safeParse :: "cell option \<Rightarrow> json \<Rightarrow> exn + json" where
  "safeParse item fallback =
     (case bind_exn (JSON_parse item) (\<lambda>v. Inr (if v = JNull then fallback else v)) of
        Inl e \<Rightarrow> Inr fallback
      | Inr r \<Rightarrow> Inr r)"

definition loadSessions :: "storage \<Rightarrow> exn + json" where
  "loadSessions ls = safeParse (sessions_item ls) (JArr [])"

definition saveSessions :: "json \<Rightarrow> storage \<Rightarrow> storage" where
  "saveSessions v ls = ls\<lparr>sessions_item := Some (Parsed v)\<rparr>"

definition loadMessages :: "json \<Rightarrow> storage \<Rightarrow> exn + json" where
  "loadMessages sessionId ls =
     (if \<not> js_truthy sessionId then Inr (JArr [])
      else safeParse (messages_item ls (to_string sessionId)) (JArr []))"

definition saveMessages :: "json \<Rightarrow> json \<Rightarrow> storage \<Rightarrow> storage" where
  "saveMessages sessionId v ls =
     (if \<not> js_truthy sessionId then ls
      else ls\<lparr>messages_item := (messages_item ls)(to_string sessionId := Some (Parsed v))\<rparr>)"

text \<open>\<^verbatim>\<open>localStorage.removeItem(MSG_KEY(id))\<close>, for the string form \<open>i\<close> of the id.\<close>

definition removeMessages :: "jstring \<Rightarrow> storage \<Rightarrow> storage" where
  "removeMessages i ls = ls\<lparr>messages_item := (messages_item ls)(i := None)\<rparr>"

section \<open>policyChatUI.jsx: strings and arrays\<close>

text \<open>
  The white space that \<^verbatim>\<open>trim\<close> strips and \<^verbatim>\<open>\s\<close> matches: the WhiteSpace and
  LineTerminator code points of ECMAScript (tab, line feed, vertical tab, form feed,
  carriage return, space, U+00A0, U+1680, U+2000 to U+200A, U+2028, U+2029, U+202F, U+205F,
  U+3000, U+FEFF), each one code unit. The ellipsis that \<^verbatim>\<open>formatTitle\<close> appends is U+2026.
\<close>

definition is_space :: "16 word \<Rightarrow> bool" where
  "is_space c =
     (c \<in> {9, 10, 11, 12, 13, 32, 160, 5760, 8232, 8233, 8239, 8287, 12288, 65279}
      \<or> (8192 \<le> c \<and> c \<le> 8202))"

definition trim :: "jstring \<Rightarrow> jstring" where
  "trim s = rev (dropWhile is_space (rev (dropWhile is_space s)))"

function collapse_spaces :: "jstring \<Rightarrow> jstring" where
  "collapse_spaces [] = []"
| "collapse_spaces (c # cs) =
     (if is_space c then 32 # collapse_spaces (dropWhile is_space cs)
      else c # collapse_spaces cs)"
  by pat_completeness auto
termination
  by (relation "measure length") (auto simp: length_dropWhile_le less_Suc_eq_le)

definition formatTitle :: "jstring \<Rightarrow> jstring" where
  "formatTitle s =
     (let t = collapse_spaces (trim s) in
      if t = [] then js ''New chat''
      else if length t > 36 then take 36 t @ [8230]
      else t)"

definition makeLocalId :: "jstring \<Rightarrow> jstring" where
  "makeLocalId uuid = js ''local-'' @ uuid"

text \<open>
  \<^verbatim>\<open>s.id\<close> on an element of a parsed array: reading a property of \<^verbatim>\<open>null\<close> throws, an object
  gives its property or \<^verbatim>\<open>undefined\<close>, any other value gives \<^verbatim>\<open>undefined\<close>.
\<close>

definition get_id :: "json \<Rightarrow> exn + json option" where
  "get_id s =
     (if s = JNull then Inl (TypeError (js ''Cannot read properties of null''))
      else Inr (get_prop s (js ''id'')))"

text \<open>
  \<^verbatim>\<open>a === b\<close> where \<open>a\<close> was read from a freshly parsed value: primitive values are equal
  when they are the same, and an array or object just parsed is identical to no other
  value.
\<close>

definition fresh_eq :: "json option \<Rightarrow> json option \<Rightarrow> bool" where
  "fresh_eq a b =
     (a = b \<and> (case a of Some (JArr xs) \<Rightarrow> False | Some (JObj ps) \<Rightarrow> False | _ \<Rightarrow> True))"

text \<open>\<^verbatim>\<open>existing.filter((s) => s.id !== id)\<close>; on a value that is no array, \<^verbatim>\<open>filter\<close> is undefined.\<close>

fun filter_not_id :: "json option \<Rightarrow> json list \<Rightarrow> exn + json list" where
  "filter_not_id i [] = Inr []"
| "filter_not_id i (s # ss) =
     bind_exn (get_id s) (\<lambda>v.
       bind_exn (filter_not_id i ss) (\<lambda>r. Inr (if \<not> fresh_eq v i then s # r else r)))"

definition sessions_without :: "json option \<Rightarrow> json \<Rightarrow> exn + json list" where
  "sessions_without i existing =
     (case existing of
        JArr ss \<Rightarrow> filter_not_id i ss
      | _ \<Rightarrow> Inl (TypeError (js ''filter is not a function'')))"

text \<open>
  \<^verbatim>\<open>loadSessions().map((s) => (s.id === currentId ? { ...s, id: realId } : s))\<close>. The spread
  keeps the properties of \<^verbatim>\<open>s\<close> in order and \<^verbatim>\<open>id\<close> in its place.
\<close>

fun put_prop :: "jstring \<Rightarrow> json \<Rightarrow> (jstring \<times> json) list \<Rightarrow> (jstring \<times> json) list" where
  "put_prop k v [] = [(k, v)]"
| "put_prop k v ((k', v') # ps) = (if k' = k then (k, v) # ps else (k', v') # put_prop k v ps)"

definition rekey_session :: "jstring \<Rightarrow> jstring \<Rightarrow> json \<Rightarrow> exn + json" where
  "rekey_session currentId realId s =
     bind_exn (get_id s) (\<lambda>v.
       Inr (if fresh_eq v (Some (JStr currentId))
            then (case s of JObj ps \<Rightarrow> JObj (put_prop (js ''id'') (JStr realId) ps) | _ \<Rightarrow> s)
            else s))"

fun map_rekey :: "jstring \<Rightarrow> jstring \<Rightarrow> json list \<Rightarrow> exn + json list" where
  "map_rekey currentId realId [] = Inr []"
| "map_rekey currentId realId (s # ss) =
     bind_exn (rekey_session currentId realId s) (\<lambda>s'.
       bind_exn (map_rekey currentId realId ss) (\<lambda>r. Inr (s' # r)))"

definition sessions_rekeyed :: "jstring \<Rightarrow> jstring \<Rightarrow> json \<Rightarrow> exn + json list" where
  "sessions_rekeyed currentId realId existing =
     (case existing of
        JArr ss \<Rightarrow> map_rekey currentId realId ss
      | _ \<Rightarrow> Inl (TypeError (js ''map is not a function'')))"

text \<open>
  \<^verbatim>\<open>[...prev, msg]\<close>: an array is spread into its elements, a string into its code points
  (a high surrogate followed by a low one is one of them, any other code unit is one by
  itself), and any other value is not iterable. \<^verbatim>\<open>messages.length === 0\<close> is
  \<open>length_is_zero\<close>.
\<close>

fun code_points :: "jstring \<Rightarrow> jstring list" where
  "code_points [] = []"
| "code_points [c] = [[c]]"
| "code_points (c # d # cs) =
     (if 55296 \<le> c \<and> c \<le> 56319 \<and> 56320 \<le> d \<and> d \<le> 57343
      then [c, d] # code_points cs
      else [c] # code_points (d # cs))"

definition append_message :: "json \<Rightarrow> json \<Rightarrow> exn + json" where
  "append_message prev m =
     (case prev of
        JArr ms \<Rightarrow> Inr (JArr (ms @ [m]))
      | JStr s \<Rightarrow> Inr (JArr (map JStr (code_points s) @ [m]))
      | _ \<Rightarrow> Inl (TypeError (js ''prev is not iterable'')))"

definition length_is_zero :: "json \<Rightarrow> bool" where
  "length_is_zero v =
     (case v of
        JArr ms \<Rightarrow> ms = []
      | JStr s \<Rightarrow> s = []
      | JObj ps \<Rightarrow> map_of ps (js ''length'') = Some (JNum 0)
      | _ \<Rightarrow> False)"

section \<open>usePolicyChat.js and the state of the component\<close>

text \<open>
  The state of \<^verbatim>\<open>PolicyChatUI\<close>: localStorage, the hook's \<^verbatim>\<open>sessionId\<close> and the six state
  variables of the component. The two session ids of the state are strings or \<^verbatim>\<open>null\<close>.
  \<open>untracked\<close> is set when the component leaves what the model follows: a state updater
  or an effect threw while React rendered or committed (which unmounts the component),
  or a value that is neither a string nor \<^verbatim>\<open>null\<close> became a session id of the state; the
  writes to localStorage up to that point are modelled, the component is followed no
  further. A render that throws because the sessions or the messages are no arrays of
  entries also unmounts the component; this is not modelled, the model lets the component
  go on, which adds runs and takes none away.
\<close>

record ui_state =
  localStorage :: storage
  hook_sessionId :: "jstring option"
  sessions :: json
  activeId :: "jstring option"
  messages :: json
  input :: jstring
  isSending :: bool
  err :: jstring
  untracked :: bool

text \<open>
  The hook's setter: \<^verbatim>\<open>_setSessionId(id); if (id) setSessionId(id)\<close>, for any value \<^verbatim>\<open>id\<close>.
\<close>

definition setSessionIdState :: "json option \<Rightarrow> ui_state \<Rightarrow> ui_state" where
  "setSessionIdState i st =
     (let st1 = (case i of
                   Some (JStr s) \<Rightarrow> st\<lparr>hook_sessionId := Some s\<rparr>
                 | Some JNull \<Rightarrow> st\<lparr>hook_sessionId := None\<rparr>
                 | _ \<Rightarrow> st\<lparr>untracked := True\<rparr>)
      in if opt_truthy i then st1\<lparr>localStorage := setSessionId i (localStorage st1)\<rparr> else st1)"

definition clearSessionIdState :: "ui_state \<Rightarrow> ui_state" where
  "clearSessionIdState st =
     (st\<lparr>localStorage := clearSessionId (localStorage st)\<rparr>)\<lparr>hook_sessionId := None\<rparr>"

text \<open>\<^verbatim>\<open>sendMessage\<close> of the hook, from the point where \<^verbatim>\<open>fetch\<close> has settled.\<close>

definition sendMessage_settled ::
  "fetch_result \<Rightarrow> ui_state \<Rightarrow> (exn + json) \<times> ui_state" where
  "sendMessage_settled fr st =
     (case sendChatMessage_settled fr (localStorage st) of
        (r, ls') \<Rightarrow>
          (let st1 = st\<lparr>localStorage := ls'\<rparr> in
           case r of
             Inl e \<Rightarrow> (Inl e, st1)
           | Inr d \<Rightarrow>
               (Inr d, if opt_truthy (get_prop d (js ''session_id''))
                       then setSessionIdState (get_prop d (js ''session_id'')) st1
                       else st1)))"

section \<open>policyChatUI.jsx: the handlers\<close>

text \<open>
  \<^verbatim>\<open>crypto.randomUUID()\<close> and \<^verbatim>\<open>nowIso()\<close> are inputs of a handler: \<open>uuid\<close> and \<open>now\<close>.
  A handler that lets an exception escape returns the state it had reached with it.
\<close>

definition upsertSession :: "jstring \<Rightarrow> jstring \<Rightarrow> jstring \<Rightarrow> ui_state \<Rightarrow> exn + ui_state" where
  "upsertSession i title now st =
     (let entry = JObj [(js ''id'', JStr i),
                        (js ''title'', JStr (if title \<noteq> [] then title else js ''New chat'')),
                        (js ''updatedAt'', JStr now)]
      in bind_exn (loadSessions (localStorage st)) (\<lambda>existing.
           bind_exn (sessions_without (Some (JStr i)) existing) (\<lambda>kept.
             (let out = JArr (entry # kept)
              in Inr (st\<lparr>localStorage := saveSessions out (localStorage st), sessions := out\<rparr>)))))"

definition startNewChat :: "jstring \<Rightarrow> jstring \<Rightarrow> ui_state \<Rightarrow> ui_state \<times> exn option" where
  "startNewChat uuid now st =
     (let st1 = st\<lparr>err := [], input := [], isSending := False\<rparr>;
          st2 = clearSessionIdState st1;
          tempId = makeLocalId uuid;
          st3 = setSessionIdState (Some (JStr tempId)) (st2\<lparr>activeId := Some tempId\<rparr>)
      in case upsertSession tempId (js ''New chat'') now st3 of
           Inl e \<Rightarrow> (st3, Some e)
         | Inr st4 \<Rightarrow> (st4\<lparr>messages := JArr []\<rparr>, None))"

text \<open>
  \<^verbatim>\<open>deleteChat(s.id)\<close> for an entry of the sidebar whose \<^verbatim>\<open>s.id\<close> is \<open>i\<close>, any value.
  \<open>is_active\<close> is \<^verbatim>\<open>activeId === id\<close>.
\<close>

definition is_active :: "json option \<Rightarrow> ui_state \<Rightarrow> bool" where
  "is_active i st =
     (case i of
        Some (JStr s) \<Rightarrow> activeId st = Some s
      | Some JNull \<Rightarrow> activeId st = None
      | _ \<Rightarrow> False)"

definition deleteChat :: "json option \<Rightarrow> ui_state \<Rightarrow> ui_state \<times> exn option" where
  "deleteChat i st =
     (case bind_exn (loadSessions (localStorage st)) (sessions_without i) of
        Inl e \<Rightarrow> (st, Some e)
      | Inr kept \<Rightarrow>
          (let st1 = st\<lparr>localStorage := removeMessages (opt_to_string i)
                                          (saveSessions (JArr kept) (localStorage st)),
                        sessions := JArr kept\<rparr>
           in if is_active i st
              then ((clearSessionIdState (st1\<lparr>activeId := None\<rparr>))\<lparr>messages := JArr []\<rparr>, None)
              else (st1, None)))"

text \<open>
  The click on an entry of the sidebar whose \<^verbatim>\<open>s.id\<close> is \<open>i\<close>:
  \<^verbatim>\<open>setErr(""); setActiveId(s.id); setSessionId(s.id)\<close>.
\<close>

definition selectSession :: "json option \<Rightarrow> ui_state \<Rightarrow> ui_state" where
  "selectSession i st =
     setSessionIdState i
       (case i of
          Some (JStr s) \<Rightarrow> st\<lparr>err := [], activeId := Some s\<rparr>
        | Some JNull \<Rightarrow> st\<lparr>err := [], activeId := None\<rparr>
        | _ \<Rightarrow> st\<lparr>err := [], untracked := True\<rparr>)"

text \<open>
  The functions that \<^verbatim>\<open>onSend\<close> passes to \<^verbatim>\<open>setMessages\<close>. React queues such an updater and
  calls it when it next renders the component, that is after the running part of the
  handler has returned; only when no update of the component is pending does it call the
  updater at once. Both updaters write localStorage, and both read the variable
  \<^verbatim>\<open>currentId\<close> of the handler when they run: \<open>run_updater\<close> takes the value the variable has
  then. \<open>flush\<close> is React processing a queue in order.
\<close>

datatype updater = AppendMessage json | Rekey jstring

fun run_updater :: "jstring \<Rightarrow> updater \<Rightarrow> json \<Rightarrow> storage \<Rightarrow> exn + json \<times> storage" where
  "run_updater currentId (AppendMessage m) prev ls =
     bind_exn (append_message prev m) (\<lambda>updated.
       Inr (updated, saveMessages (JStr currentId) updated ls))"
| "run_updater currentId (Rekey realId) prev ls =
     Inr (prev, saveMessages (JStr realId) prev (removeMessages currentId ls))"

fun flush :: "jstring \<Rightarrow> updater list \<Rightarrow> ui_state \<Rightarrow> ui_state" where
  "flush currentId [] st = st"
| "flush currentId (u # us) st =
     (case run_updater currentId u (messages st) (localStorage st) of
        Inl e \<Rightarrow> st\<lparr>untracked := True\<rparr>
      | Inr (m, ls') \<Rightarrow> flush currentId us (st\<lparr>localStorage := ls', messages := m\<rparr>))"

declare flush.simps [simp del]

text \<open>
  \<^verbatim>\<open>onSend\<close> runs in two parts. \<open>onSend_begin\<close> is the part up to \<^verbatim>\<open>await sendMessage(...)\<close>,
  followed by the render that processes the queued updater (\<^verbatim>\<open>setIsSending(true)\<close> is
  pending when it is queued); it tells whether the handler returned at its guard, let an
  exception escape, or posted a request, and then what the rest of the handler keeps of
  its variables. \<open>onSend_resume\<close> is the part after the \<^verbatim>\<open>await\<close>, followed by its render.
\<close>

record continuation =
  k_currentId :: jstring
  k_sendSessionId :: "jstring option"

datatype send_result = Ignored | Threw exn | Sent json continuation

definition user_message :: "jstring \<Rightarrow> jstring \<Rightarrow> json" where
  "user_message uuid txt =
     JObj [(js ''id'', JStr uuid), (js ''role'', JStr (js ''user'')), (js ''text'', JStr txt)]"

text \<open>
  The assistant's message: \<^verbatim>\<open>result?.answer || "(No answer returned)"\<close> and
  \<^verbatim>\<open>result?.sources || []\<close>.
\<close>

definition assistant_message :: "jstring \<Rightarrow> json \<Rightarrow> json" where
  "assistant_message uuid result =
     JObj [(js ''id'', JStr uuid), (js ''role'', JStr (js ''assistant'')),
           (js ''text'', (case get_prop result (js ''answer'') of
                           None \<Rightarrow> JStr (js ''(No answer returned)'')
                         | Some a \<Rightarrow> if js_truthy a then a else JStr (js ''(No answer returned)''))),
           (js ''sources'', (case get_prop result (js ''sources'') of
                              None \<Rightarrow> JArr []
                            | Some s \<Rightarrow> if js_truthy s then s else JArr []))]"

text \<open>
  The variable \<^verbatim>\<open>currentId\<close>: the active id, or a provisional id when there is none.
\<close>

definition onSend_currentId :: "jstring \<Rightarrow> ui_state \<Rightarrow> jstring" where
  "onSend_currentId uuid_local st =
     (case activeId st of
        None \<Rightarrow> makeLocalId uuid_local
      | Some a \<Rightarrow> if truthy (Some a) then a else makeLocalId uuid_local)"

text \<open>
  Lines 195 to 205: the three state updates, and for a chat without an active id the new
  provisional id, which becomes the active and the stored id and gets a session entry.
\<close>

definition onSend_open :: "jstring \<Rightarrow> jstring \<Rightarrow> jstring \<Rightarrow> ui_state \<Rightarrow> ui_state \<times> exn option" where
  "onSend_open uuid_local txt now1 st =
     (let st1 = st\<lparr>err := [], isSending := True, input := []\<rparr> in
      if truthy (activeId st) then (st1, None)
      else
        (let currentId = makeLocalId uuid_local;
             st2 = setSessionIdState (Some (JStr currentId)) (st1\<lparr>activeId := Some currentId\<rparr>)
         in case upsertSession currentId (formatTitle txt) now1 st2 of
              Inl e \<Rightarrow> (st2, Some e)
            | Inr st3 \<Rightarrow> (st3, None)))"

text \<open>
  Lines 207 to 218: the user's message is queued for the message list, the session entry
  is refreshed, and the request is posted with \<^verbatim>\<open>null\<close> in place of a provisional id.
\<close>

definition onSend_post ::
  "jstring \<Rightarrow> jstring \<Rightarrow> jstring \<Rightarrow> jstring \<Rightarrow> ui_state \<Rightarrow> ui_state \<times> send_result" where
  "onSend_post currentId txt uuid_msg now2 st =
     (let queue = [AppendMessage (user_message uuid_msg txt)] in
      case upsertSession currentId (formatTitle txt) now2 st of
        Inl e \<Rightarrow> (flush currentId queue st, Threw e)
      | Inr st' \<Rightarrow>
          (let sendSessionId = (if prefix (js ''local-'') currentId then None else Some currentId);
               body = chat_request_body txt (id_js sendSessionId) (localStorage st')
           in (flush currentId queue st',
               Sent body \<lparr>k_currentId = currentId, k_sendSessionId = sendSessionId\<rparr>)))"

definition onSend_begin ::
  "jstring \<Rightarrow> jstring \<Rightarrow> jstring \<Rightarrow> jstring \<Rightarrow> ui_state \<Rightarrow> ui_state \<times> send_result" where
  "onSend_begin uuid_local uuid_msg now1 now2 st =
     (let txt = trim (input st) in
      if txt = [] \<or> isSending st then (st, Ignored)
      else
        (case onSend_open uuid_local txt now1 st of
           (st', Some e) \<Rightarrow> (st', Threw e)
         | (st', None) \<Rightarrow> onSend_post (onSend_currentId uuid_local st) txt uuid_msg now2 st'))"

text \<open>\<^verbatim>\<open>e?.message || String(e)\<close> for a thrown error.\<close>

definition err_text :: "exn \<Rightarrow> jstring" where
  "err_text e = (if exn_message e \<noteq> [] then exn_message e else exn_name e)"

text \<open>
  \<^verbatim>\<open>result?.session_id || sendSessionId || currentId\<close>, when the id of the result is a
  string or falsy (a truthy id that is no string has left the model in the hook).
\<close>

definition onSend_realId :: "continuation \<Rightarrow> json \<Rightarrow> jstring option" where
  "onSend_realId k result =
     (if opt_truthy (get_prop result (js ''session_id''))
      then (case get_prop result (js ''session_id'') of Some (JStr s) \<Rightarrow> Some s | _ \<Rightarrow> None)
      else falsy_or (k_sendSessionId k) (Some (k_currentId k)))"

text \<open>
  Lines 228 to 232: the session entries are re-keyed and saved, and the server's id
  becomes the active and the stored id.
\<close>

definition onSend_rekey :: "jstring \<Rightarrow> jstring \<Rightarrow> ui_state \<Rightarrow> exn + ui_state" where
  "onSend_rekey currentId realId st =
     bind_exn (bind_exn (loadSessions (localStorage st)) (sessions_rekeyed currentId realId))
       (\<lambda>updated.
          Inr (setSessionIdState (Some (JStr realId))
                 (st\<lparr>localStorage := saveSessions (JArr updated) (localStorage st),
                     sessions := JArr updated, activeId := Some realId\<rparr>)))"

text \<open>
  The part of \<^verbatim>\<open>onSend\<close> after the \<^verbatim>\<open>await\<close>, with the render that follows it. The
  re-keying updater of line 222 is \<open>queued\<close> when an update of the component is pending,
  which is when the hook's \<^verbatim>\<open>_setSessionId\<close> has just changed the hook's state: React then
  runs it at the render, after line 233 has assigned \<^verbatim>\<open>currentId = realId\<close>, so it runs with
  the new value (\<open>flush realId\<close>). When the hook's state already was the id of the
  response, no update is pending and React calls the updater at once, at line 222, with
  the old value. When line 228 throws, the assignment of line 233 is not reached and a
  queued updater runs with the old value. The reply's updater is queued in either case
  (\<^verbatim>\<open>setSessions\<close> is pending by then). A response whose \<^verbatim>\<open>session_id\<close> is truthy and no
  string leaves the model: of the rest of the handler only \<^verbatim>\<open>finally\<close> is kept.
\<close>

definition onSend_resume :: "continuation \<Rightarrow> fetch_result \<Rightarrow> jstring \<Rightarrow> ui_state \<Rightarrow> ui_state" where
  "onSend_resume k fr uuid_msg st =
     (case sendMessage_settled fr st of
        (Inl e, st1) \<Rightarrow> st1\<lparr>err := err_text e, isSending := False\<rparr>
      | (Inr result, st1) \<Rightarrow>
          if untracked st1 then st1\<lparr>isSending := False\<rparr>
          else
            (let currentId = k_currentId k;
                 reply = AppendMessage (assistant_message uuid_msg result);
                 queued = (hook_sessionId st1 \<noteq> hook_sessionId st)
             in case onSend_realId k result of
                  None \<Rightarrow> st1\<lparr>isSending := False, untracked := True\<rparr>
                | Some realId \<Rightarrow>
                    if prefix (js ''local-'') currentId \<and> truthy (Some realId) \<and> realId \<noteq> currentId then
                      (let st1' = (if queued then st1 else flush currentId [Rekey realId] st1) in
                       case onSend_rekey currentId realId st1' of
                         Inl e \<Rightarrow>
                           flush currentId (if queued then [Rekey realId] else [])
                             (st1'\<lparr>err := err_text e, isSending := False\<rparr>)
                       | Inr st2 \<Rightarrow>
                           flush realId ((if queued then [Rekey realId] else []) @ [reply])
                             (st2\<lparr>isSending := False\<rparr>))
                    else flush currentId [reply] (st1\<lparr>isSending := False\<rparr>)))"

text \<open>The \<^verbatim>\<open>disabled\<close> attributes of the composer's input and of the send button.\<close>

definition input_disabled :: "ui_state \<Rightarrow> bool" where
  "input_disabled st = isSending st"

definition send_disabled :: "ui_state \<Rightarrow> bool" where
  "send_disabled st = (trim (input st) = [] \<or> isSending st)"

section \<open>Effects and the initial state\<close>

text \<open>
  The effects of one commit, in the order of their declaration: the hook's (it stores a
  truthy \<^verbatim>\<open>sessionId\<close>), then the component's (follow the hook's \<^verbatim>\<open>sessionId\<close> with
  \<^verbatim>\<open>activeId\<close>; load the messages of a new \<^verbatim>\<open>activeId\<close>; save the messages). An effect runs
  when one of its dependencies differs from the previous commit (\<open>prev\<close>), and all run on
  the first commit (\<open>first\<close>). Their state updates make the next render. Values are
  compared by content.
\<close>

definition persist_effect :: "bool \<Rightarrow> ui_state \<Rightarrow> ui_state \<Rightarrow> storage \<Rightarrow> storage" where
  "persist_effect first prev st ls =
     (if (first \<or> hook_sessionId st \<noteq> hook_sessionId prev) \<and> truthy (hook_sessionId st)
      then setSessionId (Some (id_js (hook_sessionId st))) ls else ls)"

definition follow_effect :: "bool \<Rightarrow> ui_state \<Rightarrow> ui_state \<Rightarrow> jstring option" where
  "follow_effect first prev st =
     (if (first \<or> hook_sessionId st \<noteq> hook_sessionId prev \<or> activeId st \<noteq> activeId prev)
         \<and> truthy (hook_sessionId st) \<and> hook_sessionId st \<noteq> activeId st
      then hook_sessionId st else activeId st)"

definition load_effect :: "bool \<Rightarrow> ui_state \<Rightarrow> ui_state \<Rightarrow> storage \<Rightarrow> exn + json" where
  "load_effect first prev st ls =
     (if first \<or> activeId st \<noteq> activeId prev
      then (if \<not> truthy (activeId st) then Inr (JArr [])
            else loadMessages (id_js (activeId st)) ls)
      else Inr (messages st))"

definition save_effect :: "bool \<Rightarrow> ui_state \<Rightarrow> ui_state \<Rightarrow> storage \<Rightarrow> storage" where
  "save_effect first prev st ls =
     (if (first \<or> activeId st \<noteq> activeId prev \<or> messages st \<noteq> messages prev)
         \<and> truthy (activeId st) \<and> \<not> length_is_zero (messages st)
      then saveMessages (id_js (activeId st)) (messages st) ls else ls)"

definition run_effects :: "bool \<Rightarrow> ui_state \<Rightarrow> ui_state \<Rightarrow> ui_state" where
  "run_effects first prev st =
     (let ls1 = persist_effect first prev st (localStorage st);
          loaded = load_effect first prev st ls1;
          ls2 = save_effect first prev st ls1
      in case loaded of
           Inl e \<Rightarrow> st\<lparr>localStorage := ls2, untracked := True\<rparr>
         | Inr msgs \<Rightarrow>
             st\<lparr>localStorage := ls2, activeId := follow_effect first prev st, messages := msgs\<rparr>)"

text \<open>
  Commits follow one another while the effects change the state of the component.
  \<open>settle n\<close> runs at most \<open>n\<close> of them; three are the most a handler can cause (proved
  below), and a handler is given four.
\<close>

fun settle :: "nat \<Rightarrow> ui_state \<Rightarrow> ui_state \<Rightarrow> ui_state" where
  "settle 0 prev st = st"
| "settle (Suc n) prev st =
     (let st' = run_effects False prev st in
      if untracked st' \<or> (activeId st' = activeId st \<and> messages st' = messages st) then st'
      else settle n st st')"

text \<open>The \<^verbatim>\<open>useState\<close> initialisers, and the first commit with its effects.\<close>

definition initial_state :: "storage \<Rightarrow> ui_state" where
  "initial_state ls =
     (let sid = falsy_or (getSessionId ls) None;
          st0 = \<lparr>localStorage = ls, hook_sessionId = sid, sessions = JArr [], activeId = sid,
                 messages = JArr [], input = [], isSending = False, err = [], untracked = False\<rparr>
      in case bind_exn (loadSessions ls) (\<lambda>ss.
                bind_exn (if truthy sid then loadMessages (id_js sid) ls else Inr (JArr [])) (\<lambda>ms.
                  Inr (st0\<lparr>sessions := ss, messages := ms\<rparr>))) of
           Inl e \<Rightarrow> st0\<lparr>untracked := True\<rparr>
         | Inr st \<Rightarrow> st)"

definition mount :: "storage \<Rightarrow> ui_state" where
  "mount ls =
     (let st = initial_state ls; st' = run_effects True st st in
      if untracked st' \<or> (activeId st' = activeId st \<and> messages st' = messages st) then st'
      else settle 4 st st')"

section \<open>The client as a transition system\<close>

text \<open>
  A world is the component with the requests that were posted and have not settled, each
  with the rest of its handler, and the exceptions that escaped a handler. An event is
  what the user or the network does; after the handler, the effects run. The entry that
  the user selects or deletes is given by its \<^verbatim>\<open>s.id\<close>, any value.
\<close>

record world =
  ui :: ui_state
  pending :: "(json \<times> continuation) list"
  uncaught :: "exn list"

datatype event =
    Typed jstring
  | Send jstring jstring jstring jstring
  | Settle nat fetch_result jstring
  | NewChat jstring jstring
  | Select "json option"
  | Delete "json option"

text \<open>
  The \<^verbatim>\<open>s.id\<close> of the entries that the sidebar renders: one entry per element of
  \<^verbatim>\<open>sessions\<close>; nothing when \<^verbatim>\<open>sessions.map\<close> is undefined or an element is \<^verbatim>\<open>null\<close> (the
  render throws).
\<close>

fun rendered_ids :: "json \<Rightarrow> json option list" where
  "rendered_ids (JArr ss) =
     (if JNull \<in> set ss then [] else map (\<lambda>s. get_prop s (js ''id'')) ss)"
| "rendered_ids v = []"

definition committed :: "world \<Rightarrow> ui_state \<Rightarrow> exn option \<Rightarrow> world" where
  "committed w st e =
     w\<lparr>ui := settle 4 (ui w) st,
       uncaught := (case e of None \<Rightarrow> uncaught w | Some x \<Rightarrow> uncaught w @ [x])\<rparr>"

fun step :: "event \<Rightarrow> world \<Rightarrow> world" where
  "step (Typed s) w =
     (if untracked (ui w) \<or> input_disabled (ui w) then w else w\<lparr>ui := (ui w)\<lparr>input := s\<rparr>\<rparr>)"
| "step (Send uuid_local uuid_msg now1 now2) w =
     (if untracked (ui w) then w
      else (case onSend_begin uuid_local uuid_msg now1 now2 (ui w) of
              (st, Ignored) \<Rightarrow> committed w st None
            | (st, Threw e) \<Rightarrow> committed w st (Some e)
            | (st, Sent body k) \<Rightarrow> (committed w st None)\<lparr>pending := pending w @ [(body, k)]\<rparr>))"
| "step (Settle n fr uuid_msg) w =
     (if untracked (ui w) \<or> n \<ge> length (pending w) then w
      else (committed w (onSend_resume (snd (pending w ! n)) fr uuid_msg (ui w)) None)
             \<lparr>pending := take n (pending w) @ drop (Suc n) (pending w)\<rparr>)"
| "step (NewChat uuid now) w =
     (if untracked (ui w) then w
      else (case startNewChat uuid now (ui w) of (st, e) \<Rightarrow> committed w st e))"
| "step (Select i) w =
     (if untracked (ui w) \<or> i \<notin> set (rendered_ids (sessions (ui w))) then w
      else committed w (selectSession i (ui w)) None)"
| "step (Delete i) w =
     (if untracked (ui w) \<or> i \<notin> set (rendered_ids (sessions (ui w))) then w
      else (case deleteChat i (ui w) of (st, e) \<Rightarrow> committed w st e))"

definition run :: "event list \<Rightarrow> world \<Rightarrow> world" where
  "run evs w = foldl (\<lambda>w' ev. step ev w') w evs"

definition empty_storage :: storage where
  "empty_storage = \<lparr>sessionId_item = None, sessions_item = None, messages_item = (\<lambda>i. None)\<rparr>"

definition start :: "storage \<Rightarrow> world" where
  "start ls = \<lparr>ui = mount ls, pending = [], uncaught = []\<rparr>"

section \<open>The stored session id along a run\<close>

text \<open>
  \<open>stored_id\<close> is the value under \<^verbatim>\<open>policyChat.sessionId\<close>. It is well-formed when it is
  absent or a non-empty string; \<open>kept_or_set a b\<close> says that a step from \<open>a\<close> to \<open>b\<close> left
  it as it was or wrote a non-empty string.
\<close>

definition stored_id :: "world \<Rightarrow> jstring option" where
  "stored_id w = getSessionId (localStorage (ui w))"

definition sid_ok :: "jstring option \<Rightarrow> bool" where
  "sid_ok a = (a = None \<or> truthy a)"

definition kept_or_set :: "jstring option \<Rightarrow> jstring option \<Rightarrow> bool" where
  "kept_or_set a b = (b = a \<or> truthy b)"

fun is_delete :: "event \<Rightarrow> bool" where
  "is_delete (Delete i) = True"
| "is_delete ev = False"

text \<open>
  The ids that an event brings are strings when the \<^verbatim>\<open>session_id\<close> of the response that
  settles is a string or absent (\<^verbatim>\<open>null\<close>, \<^verbatim>\<open>undefined\<close>, or no response body at all), and the
  \<^verbatim>\<open>s.id\<close> of the entry that the user selects is a string or \<^verbatim>\<open>null\<close>.
\<close>

definition string_or_absent :: "json option \<Rightarrow> bool" where
  "string_or_absent v =
     (case v of None \<Rightarrow> True | Some JNull \<Rightarrow> True | Some (JStr s) \<Rightarrow> True | _ \<Rightarrow> False)"

definition string_or_null :: "json option \<Rightarrow> bool" where
  "string_or_null v =
     (case v of Some JNull \<Rightarrow> True | Some (JStr s) \<Rightarrow> True | _ \<Rightarrow> False)"

definition response_session_id :: "fetch_result \<Rightarrow> json option" where
  "response_session_id fr =
     (case fr of
        Rejected e \<Rightarrow> None
      | Response res \<Rightarrow>
          (case res_json res of Inl e \<Rightarrow> None | Inr d \<Rightarrow> get_prop d (js ''session_id'')))"

fun string_ids :: "event \<Rightarrow> bool" where
  "string_ids (Settle n fr uuid_msg) = string_or_absent (response_session_id fr)"
| "string_ids (Select i) = string_or_null i"
| "string_ids ev = True"

text \<open>
  Responses of the server: one that assigns the id \<^verbatim>\<open>srv-1\<close>, one whose \<^verbatim>\<open>session_id\<close> is
  the empty array, and one with status 503.
\<close>

definition reply_srv1 :: fetch_result where
  "reply_srv1 =
     Response \<lparr>res_ok = True, res_status = 200, res_statusText = js ''OK'', res_text = None,
               res_json = Inr (JObj [(js ''session_id'', JStr (js ''srv-1'')),
                                      (js ''answer'', JStr (js ''ok''))])\<rparr>"

definition reply_array_id :: fetch_result where
  "reply_array_id =
     Response \<lparr>res_ok = True, res_status = 200, res_statusText = js ''OK'', res_text = None,
               res_json = Inr (JObj [(js ''session_id'', JArr []),
                                      (js ''answer'', JStr (js ''ok''))])\<rparr>"

definition reply_503 :: response where
  "reply_503 =
     \<lparr>res_ok = False, res_status = 503, res_statusText = js ''Service Unavailable'',
      res_text = Some (js ''vector store down''),
      res_json = Inl (SyntaxError (js ''Unexpected token''))\<rparr>"

text \<open>The properties \<^verbatim>\<open>message\<close> and \<^verbatim>\<open>session_id\<close> of a posted body.\<close>

definition message_of :: "json \<Rightarrow> json option" where
  "message_of b = get_prop b (js ''message'')"

definition session_id_of :: "json \<Rightarrow> json option" where
  "session_id_of b = get_prop b (js ''session_id'')"

section \<open>The retrieval engine behind \<^verbatim>\<open>/chat\<close>\<close>

text \<open>
  Modelled from the spec: the server that answers \<^verbatim>\<open>/chat\<close> (Session Orchestrator, Query
  Rewriter, Coarse and Fine Retriever, Context Assembler, Answer Synthesizer) is not
  among the sources; only its caller \<^verbatim>\<open>sendChatMessage\<close> is. The definitions of this section
  follow sections 3, 4 and 7 of the spec. Identifiers are numbers, an embedding is a
  list of coordinates, and a distance is an integer (the order of distances is all the
  pipeline uses). A candidate of the coarse stage is a section or a document: \<open>entity\<close>.
\<close>

datatype entity = Sec nat | Doc nat

text \<open>Modelled from the spec: the error taxonomy of section 7.\<close>

datatype error =
  InvalidInput | UpstreamUnavailable | SessionNotFound | PersistenceFailure | SynthesisFailure

text \<open>Modelled from the spec: the role of a Turn (section 3).\<close>

datatype role = User | Assistant

text \<open>Modelled from the spec: Section of section 3, the coarse retrieval unit.\<close>

record section_rec =
  sec_id :: nat
  sec_document_id :: nat
  sec_embedding :: "int list"
  sec_order_index :: nat

text \<open>Modelled from the spec: Chunk of section 3, the fine retrieval unit, with the file name that a Citation shows.\<close>

record chunk =
  chunk_id :: nat
  chunk_document_id :: nat
  chunk_section_id :: nat
  chunk_file_name :: string
  chunk_body :: string
  chunk_embedding :: "int list"
  chunk_order_index :: nat

text \<open>Modelled from the spec: Citation of section 3.\<close>

record citation =
  cit_document_id :: nat
  cit_chunk_id :: nat
  cit_file_name :: string
  cit_chunk_part :: nat
  cit_distance :: int

text \<open>Modelled from the spec: Turn of section 3 (the timestamp is left out).\<close>

record turn =
  turn_role :: role
  turn_body :: string
  turn_sources :: "citation list"

text \<open>Modelled from the spec: RetrievalResult of section 3 for a chunk; the chunk is kept whole, so that its section and document can be read.\<close>

record retrieval_result =
  r_chunk :: chunk
  r_distance :: int

text \<open>Modelled from the spec: ContextBundle of section 3.\<close>

record context_bundle =
  bundle_items :: "(chunk \<times> citation) list"
  abstain :: bool

text \<open>
  Modelled from the spec: the external capabilities of section 6. \<open>embed\<close> and \<open>distance\<close>
  stand for the Vector Store Client's metric, \<open>complete\<close> for the Language Model Client
  (\<open>None\<close> when the call fails or times out); \<open>sections\<close> and \<open>chunks\<close> are the corpus.
\<close>

record services =
  embed :: "string \<Rightarrow> int list"
  distance :: "int list \<Rightarrow> int list \<Rightarrow> int"
  complete :: "string \<Rightarrow> string option"
  sections :: "section_rec list"
  chunks :: "chunk list"

text \<open>
  Modelled from the spec: the configuration (\<open>k\<close> of 4.3, \<open>n\<close> of 4.4, the budget of 4.5,
  the history window of 4.1, the distance threshold of the coarse stage that 4.4 mentions).
\<close>

record config =
  cfg_k :: nat
  cfg_n :: nat
  cfg_budget :: nat
  cfg_window :: nat
  cfg_threshold :: "int option"

text \<open>Modelled from the spec: the fixed abstention text of 4.6.\<close>

definition ABSTENTION_TEXT :: string where
  "ABSTENTION_TEXT = ''I don't have information on that in the policy set''"

text \<open>
  Modelled from the spec: 4.2, the Query Rewriter. With no history the message is
  returned unchanged; otherwise the language model rewrites it, and its failure falls back
  to the message.
\<close>

definition rewrite :: "services \<Rightarrow> turn list \<Rightarrow> string \<Rightarrow> string" where
  "rewrite sv history latest_message =
     (if history = [] then latest_message
      else (case complete sv (concat (map turn_body history) @ latest_message) of
              None \<Rightarrow> latest_message
            | Some q \<Rightarrow> q))"

text \<open>
  Modelled from the spec: 4.3, the Coarse Retriever. The sections within the threshold,
  by ascending distance to the query, ties by \<open>order_index\<close>; the first \<open>k\<close> of them.
\<close>

definition coarse_search :: "services \<Rightarrow> config \<Rightarrow> string \<Rightarrow> nat \<Rightarrow> entity list" where
  "coarse_search sv cfg query k =
     (let q = embed sv query;
          near = filter (\<lambda>s. case cfg_threshold cfg of
                                None \<Rightarrow> True
                              | Some t \<Rightarrow> distance sv q (sec_embedding s) \<le> t) (sections sv);
          ranked = sort_key (\<lambda>s. (distance sv q (sec_embedding s), sec_order_index s)) near
      in take k (map (\<lambda>s. Sec (sec_id s)) ranked))"

text \<open>
  Modelled from the spec: 4.4, the Fine Retriever. The hard filter keeps the chunks whose
  section or document is in the candidate scope; an empty scope skips the search.
\<close>

definition in_scope :: "entity set \<Rightarrow> chunk \<Rightarrow> bool" where
  "in_scope candidate_scope c =
     (Sec (chunk_section_id c) \<in> candidate_scope \<or> Doc (chunk_document_id c) \<in> candidate_scope)"

text \<open>Modelled from the spec: 4.4, \<^verbatim>\<open>fine_search(query, candidate_scope, n)\<close>: the filtered chunks by ascending distance, ties by \<open>order_index\<close>; the first \<open>n\<close> of them.\<close>

definition fine_search :: "services \<Rightarrow> string \<Rightarrow> entity set \<Rightarrow> nat \<Rightarrow> retrieval_result list" where
  "fine_search sv query candidate_scope n =
     (if candidate_scope = {} then []
      else
        (let q = embed sv query;
             hits = map (\<lambda>c. \<lparr>r_chunk = c, r_distance = distance sv q (chunk_embedding c)\<rparr>)
                      (filter (in_scope candidate_scope) (chunks sv));
             ranked = sort_key (\<lambda>r. (r_distance r, chunk_order_index (r_chunk r))) hits
         in take n ranked))"

text \<open>
  Modelled from the spec: 4.5, the Context Assembler. Duplicates of a chunk id are dropped
  (the first is kept), chunks are included in ascending distance until one would exceed
  the budget, and the included ones are presented in document order, each with its
  citation. An empty result list gives the abstaining bundle.
\<close>

fun dedupe :: "nat list \<Rightarrow> retrieval_result list \<Rightarrow> retrieval_result list" where
  "dedupe seen [] = []"
| "dedupe seen (r # rs) =
     (if chunk_id (r_chunk r) \<in> set seen then dedupe seen rs
      else r # dedupe (chunk_id (r_chunk r) # seen) rs)"

text \<open>Modelled from the spec: 4.5, the greedy inclusion under the budget; the size of a chunk is the length of its text.\<close>

fun within_budget :: "nat \<Rightarrow> retrieval_result list \<Rightarrow> retrieval_result list" where
  "within_budget budget [] = []"
| "within_budget budget (r # rs) =
     (if length (chunk_body (r_chunk r)) > budget then []
      else r # within_budget (budget - length (chunk_body (r_chunk r))) rs)"

text \<open>Modelled from the spec: 4.5, one Citation per included chunk, with \<open>chunk_part = order_index\<close>.\<close>

definition citation_of :: "retrieval_result \<Rightarrow> citation" where
  "citation_of r =
     \<lparr>cit_document_id = chunk_document_id (r_chunk r), cit_chunk_id = chunk_id (r_chunk r),
      cit_file_name = chunk_file_name (r_chunk r), cit_chunk_part = chunk_order_index (r_chunk r),
      cit_distance = r_distance r\<rparr>"

text \<open>Modelled from the spec: 4.5, \<^verbatim>\<open>assemble(results, budget)\<close>.\<close>

definition assemble :: "retrieval_result list \<Rightarrow> nat \<Rightarrow> context_bundle" where
  "assemble results budget =
     (if results = [] then \<lparr>bundle_items = [], abstain = True\<rparr>
      else
        (let included = within_budget budget (dedupe [] results);
             ordered = sort_key (\<lambda>r. (chunk_document_id (r_chunk r), chunk_order_index (r_chunk r)))
                         included
         in \<lparr>bundle_items = map (\<lambda>r. (r_chunk r, citation_of r)) ordered, abstain = False\<rparr>))"

text \<open>
  Modelled from the spec: 4.6, the result of the Answer Synthesizer, with the number of
  calls made to the language model. The reference token of the \<open>i\<close>-th chunk is \<open>[i]\<close>;
  a citation is returned when its token occurs in the generated text.
\<close>

record synthesis =
  syn_answer :: string
  syn_citations :: "citation list"
  syn_calls :: nat

text \<open>Modelled from the spec: 4.6, the stable reference token of a chunk in the prompt.\<close>

definition ref_token :: "nat \<Rightarrow> string" where
  "ref_token i = ''['' @ show_nat i @ '']''"

text \<open>Modelled from the spec: 4.6, the prompt: the standalone query and the chunk texts with their tokens.\<close>

definition build_prompt :: "string \<Rightarrow> (chunk \<times> citation) list \<Rightarrow> string" where
  "build_prompt query its =
     query @ concat (map (\<lambda>(i, (c, _)). ref_token i @ chunk_body c) (enumerate 0 its))"

text \<open>Modelled from the spec: 4.6, the citations whose token the generated text uses.\<close>

definition cited :: "string \<Rightarrow> (chunk \<times> citation) list \<Rightarrow> citation list" where
  "cited answer its =
     map (\<lambda>(i, (_, ci)). ci) (filter (\<lambda>(i, _). sublist (ref_token i) answer) (enumerate 0 its))"

text \<open>Modelled from the spec: 4.6, \<^verbatim>\<open>synthesize(query, bundle, history)\<close>: the fixed text without a call when the bundle abstains; otherwise one call, one retry, and a synthesis error when both fail.\<close>

definition synthesize ::
  "services \<Rightarrow> string \<Rightarrow> context_bundle \<Rightarrow> turn list \<Rightarrow> error + synthesis" where
  "synthesize sv query bundle history =
     (if abstain bundle then Inr \<lparr>syn_answer = ABSTENTION_TEXT, syn_citations = [], syn_calls = 0\<rparr>
      else
        (let prompt = build_prompt query (bundle_items bundle) in
         case complete sv prompt of
           Some t \<Rightarrow> Inr \<lparr>syn_answer = t, syn_citations = cited t (bundle_items bundle), syn_calls = 1\<rparr>
         | None \<Rightarrow>
             (case complete sv prompt of
                Some t \<Rightarrow>
                  Inr \<lparr>syn_answer = t, syn_citations = cited t (bundle_items bundle), syn_calls = 2\<rparr>
              | None \<Rightarrow> Inl SynthesisFailure)))"

text \<open>
  Modelled from the spec: 4.1 and 6, what the Session Orchestrator returns. The session
  store maps an id to its turns; \<open>fresh\<close> is the id the store assigns to a new session,
  \<open>store_up\<close> tells whether the write of the turn pair succeeds. An empty message is
  rejected before any retrieval.
\<close>

record reply =
  reply_answer :: string
  reply_sources :: "citation list"
  reply_session_id :: string
  reply_persisted :: bool
  reply_synthesis_calls :: nat

text \<open>Modelled from the spec: 4.1, an absent or unknown session id gives a new session with the id the store assigns.\<close>

definition load_session ::
  "string \<Rightarrow> (string \<rightharpoonup> turn list) \<Rightarrow> string option \<Rightarrow> string \<times> turn list" where
  "load_session fresh store session_id =
     (case session_id of
        None \<Rightarrow> (fresh, [])
      | Some i \<Rightarrow> (case store i of None \<Rightarrow> (fresh, []) | Some ts \<Rightarrow> (i, ts)))"

text \<open>Modelled from the spec: 4.1, the history bounded to the most recent turns.\<close>

definition recent :: "config \<Rightarrow> turn list \<Rightarrow> turn list" where
  "recent cfg turns = drop (length turns - cfg_window cfg) turns"

text \<open>Modelled from the spec: the query that the retrieval stages receive, rewritten from the message and the recent history (4.2).\<close>

definition standalone_query ::
  "services \<Rightarrow> config \<Rightarrow> string \<Rightarrow> (string \<rightharpoonup> turn list) \<Rightarrow> string option \<Rightarrow> string \<Rightarrow> string" where
  "standalone_query sv cfg fresh store session_id message =
     rewrite sv (recent cfg (snd (load_session fresh store session_id))) message"

text \<open>Modelled from the spec: 4.1, \<^verbatim>\<open>handle(session_id, message)\<close>: rewrite, coarse search, fine search, assembly, synthesis, then the turn pair is appended.\<close>

definition handle ::
  "services \<Rightarrow> config \<Rightarrow> string \<Rightarrow> bool \<Rightarrow> (string \<rightharpoonup> turn list) \<Rightarrow> string option \<Rightarrow> string
     \<Rightarrow> (error + reply) \<times> (string \<rightharpoonup> turn list)" where
  "handle sv cfg fresh store_up store session_id message =
     (if message = [] then (Inl InvalidInput, store)
      else
        (let (sid, turns) = load_session fresh store session_id;
             history = recent cfg turns;
             standalone = standalone_query sv cfg fresh store session_id message;
             candidates = coarse_search sv cfg standalone (cfg_k cfg);
             results = fine_search sv standalone (set candidates) (cfg_n cfg);
             bundle = assemble results (cfg_budget cfg)
         in case synthesize sv standalone bundle history of
              Inl e \<Rightarrow> (Inl e, store)
            | Inr syn \<Rightarrow>
                (let pair = [\<lparr>turn_role = User, turn_body = message, turn_sources = []\<rparr>,
                             \<lparr>turn_role = Assistant, turn_body = syn_answer syn,
                              turn_sources = syn_citations syn\<rparr>]
                 in (Inr \<lparr>reply_answer = syn_answer syn, reply_sources = syn_citations syn,
                          reply_session_id = sid, reply_persisted = store_up,
                          reply_synthesis_calls = syn_calls syn\<rparr>,
                     if store_up then store(sid \<mapsto> turns @ pair) else store))))"

text \<open>A corpus of one section with two chunks, and a language model that always answers.\<close>

definition demo_services :: services where
  "demo_services =
     \<lparr>embed = (\<lambda>q. [int (length q)]),
      distance = (\<lambda>a b. \<bar>sum_list a - sum_list b\<bar>),
      complete = (\<lambda>p. Some ''See [0].''),
      sections = [\<lparr>sec_id = 1, sec_document_id = 7, sec_embedding = [40], sec_order_index = 0\<rparr>],
      chunks = [\<lparr>chunk_id = 10, chunk_document_id = 7, chunk_section_id = 1,
                 chunk_file_name = ''alcohol.txt'', chunk_body = ''No alcohol in halls.'',
                 chunk_embedding = [30], chunk_order_index = 0\<rparr>,
                \<lparr>chunk_id = 11, chunk_document_id = 8, chunk_section_id = 2,
                 chunk_file_name = ''leave.txt'', chunk_body = ''Leave is requested in writing.'',
                 chunk_embedding = [31], chunk_order_index = 0\<rparr>]\<rparr>"

definition demo_config :: config where
  "demo_config = \<lparr>cfg_k = 3, cfg_n = 5, cfg_budget = 1000, cfg_window = 6, cfg_threshold = Some 5\<rparr>"

section \<open>The shape of the request body\<close>

lemma key_name_inj: "inj key_name"
proof (rule injI)
  fix a b assume "key_name a = key_name b"
  then show "a = b" by (cases a; cases b) (simp_all add: js_def)
qed

lemma body_of_override:
  "chat_request_body m (JStr (c # cs)) ls
     = JObj [(js ''session_id'', JStr (c # cs)), (js ''message'', JStr m)]"
  by (simp add: chat_request_body_def)

lemma body_of_empty_override:
  "chat_request_body m (JStr []) ls = JObj [(js ''message'', JStr m)]"
  by (simp add: chat_request_body_def)

lemma body_of_stored:
  "chat_request_body m JNull (ls\<lparr>sessionId_item := Some (c # cs)\<rparr>)
     = JObj [(js ''session_id'', JStr (c # cs)), (js ''message'', JStr m)]"
  by (simp add: chat_request_body_def getSessionId_def id_js_def)

lemma body_of_empty_stored:
  "chat_request_body m JNull (ls\<lparr>sessionId_item := Some []\<rparr>) = JObj [(js ''message'', JStr m)]"
  by (simp add: chat_request_body_def getSessionId_def id_js_def)

lemma body_of_nothing:
  "chat_request_body m JNull (ls\<lparr>sessionId_item := None\<rparr>) = JObj [(js ''message'', JStr m)]"
  by (simp add: chat_request_body_def getSessionId_def id_js_def)

text \<open>
  C4, as amended. The id in effect is the override when the caller passes a string, and
  the stored id when the caller passes \<^verbatim>\<open>null\<close> or nothing. \<^verbatim>\<open>fetch\<close> is handed the object
  with the two properties \<^verbatim>\<open>session_id\<close> and \<^verbatim>\<open>message\<close>, in this order, when the id in
  effect is a non-empty string, and the object with the one property \<^verbatim>\<open>message\<close> when it
  is empty or absent; \<^verbatim>\<open>message\<close> is the caller's string. An empty override is not
  replaced by the stored id.
\<close>

theorem C4_request_body:
  "sendChatMessage fetch m (JStr (c # cs)) ls
     = sendChatMessage_settled
         (fetch (JObj [(js ''session_id'', JStr (c # cs)), (js ''message'', JStr m)])) ls
   \<and> sendChatMessage fetch m (JStr []) ls
     = sendChatMessage_settled (fetch (JObj [(js ''message'', JStr m)])) ls
   \<and> sendChatMessage fetch m JNull (ls\<lparr>sessionId_item := Some (c # cs)\<rparr>)
     = sendChatMessage_settled
         (fetch (JObj [(js ''session_id'', JStr (c # cs)), (js ''message'', JStr m)]))
         (ls\<lparr>sessionId_item := Some (c # cs)\<rparr>)
   \<and> sendChatMessage fetch m JNull (ls\<lparr>sessionId_item := Some []\<rparr>)
     = sendChatMessage_settled (fetch (JObj [(js ''message'', JStr m)]))
         (ls\<lparr>sessionId_item := Some []\<rparr>)
   \<and> sendChatMessage fetch m JNull (ls\<lparr>sessionId_item := None\<rparr>)
     = sendChatMessage_settled (fetch (JObj [(js ''message'', JStr m)]))
         (ls\<lparr>sessionId_item := None\<rparr>)"
  by (simp only: sendChatMessage_def body_of_override body_of_empty_override body_of_stored
        body_of_empty_stored body_of_nothing simp_thms)

text \<open>
  The claim C4 as stated fails. The stored id is \<^verbatim>\<open>s1\<close>, so a non-empty session id is
  available, and the caller passes the empty string as the override: \<^verbatim>\<open>??\<close> keeps the
  empty string, and the body that \<^verbatim>\<open>fetch\<close> is handed has no \<^verbatim>\<open>session_id\<close>.
\<close>

theorem C4_empty_override_hides_stored_id:
  "getSessionId (empty_storage\<lparr>sessionId_item := Some (js ''s1'')\<rparr>) = Some (js ''s1'')
   \<and> chat_request_body (js ''hi'') (JStr []) (empty_storage\<lparr>sessionId_item := Some (js ''s1'')\<rparr>)
       = JObj [(js ''message'', JStr (js ''hi''))]
   \<and> fst (sendChatMessage (\<lambda>b. Rejected (Error (opt_to_string (session_id_of b)))) (js ''hi'')
              (JStr []) (empty_storage\<lparr>sessionId_item := Some (js ''s1'')\<rparr>))
       = Inl (Error (js ''undefined''))"
  by code_simp

section \<open>The retrieval engine: containment and abstention\<close>

lemma set_fine_search:
  "r \<in> set (fine_search sv query candidate_scope n) \<Longrightarrow> in_scope candidate_scope (r_chunk r)"
  by (auto simp: fine_search_def Let_def split: if_splits dest!: in_set_takeD)

text \<open>
  C8. Every chunk that \<open>fine_search\<close> returns has its section or its document in the
  candidate scope it was given (for the empty scope it returns nothing).
\<close>

theorem C8_fine_search_containment:
  "list_all (\<lambda>r. in_scope candidate_scope (r_chunk r)) (fine_search sv query candidate_scope n)"
  unfolding list_all_iff using set_fine_search by blast

lemma demo_fine_search:
  "map (\<lambda>r. chunk_id (r_chunk r)) (fine_search demo_services ''alcohol'' {Sec 1} 5) = [10]"
  by (simp add: fine_search_def demo_services_def in_scope_def)

text \<open>
  C7. When the coarse stage finds no candidate for the rewritten message, the reply is
  the fixed abstention text with no sources, and the language model is not called for
  synthesis.
\<close>

theorem C7_abstention:
  assumes "message \<noteq> []"
    and "coarse_search sv cfg (standalone_query sv cfg fresh store session_id message) (cfg_k cfg) = []"
  shows "\<exists>r. fst (handle sv cfg fresh store_up store session_id message) = Inr r
           \<and> reply_answer r = ABSTENTION_TEXT \<and> reply_sources r = []
           \<and> reply_synthesis_calls r = 0"
  using assms
  by (auto simp: handle_def Let_def fine_search_def assemble_def synthesize_def
           split: option.splits prod.splits)

lemma demo_coarse_empty:
  "coarse_search demo_services demo_config
     (standalone_query demo_services demo_config ''s-1'' Map.empty None ''parking'')
     (cfg_k demo_config) = []"
  by (simp add: coarse_search_def standalone_query_def load_session_def recent_def rewrite_def
        demo_services_def demo_config_def)

theorem C7_abstention_witness:
  "''parking'' \<noteq> []
   \<and> coarse_search demo_services demo_config
       (standalone_query demo_services demo_config ''s-1'' Map.empty None ''parking'')
       (cfg_k demo_config) = []
   \<and> (\<exists>r. fst (handle demo_services demo_config ''s-1'' True Map.empty None ''parking'') = Inr r
           \<and> reply_answer r = ABSTENTION_TEXT \<and> reply_sources r = []
           \<and> reply_synthesis_calls r = 0)"
  using C7_abstention [of "''parking''" demo_services demo_config "''s-1''" Map.empty None True]
    demo_coarse_empty
  by simp

section \<open>The stored session id is kept or set\<close>

lemma kos_refl: "kept_or_set a a"
  by (simp add: kept_or_set_def)

lemma kos_trans: "kept_or_set a b \<Longrightarrow> kept_or_set b c \<Longrightarrow> kept_or_set a c"
  by (auto simp: kept_or_set_def)

lemma makeLocalId_nonempty: "makeLocalId u \<noteq> []"
  by (simp add: makeLocalId_def js_def)

lemma sid_saveSessions: "getSessionId (saveSessions v ls) = getSessionId ls"
  by (simp add: saveSessions_def getSessionId_def)

lemma sid_saveMessages: "getSessionId (saveMessages i v ls) = getSessionId ls"
  by (simp add: saveMessages_def getSessionId_def)

lemma sid_removeMessages: "getSessionId (removeMessages i ls) = getSessionId ls"
  by (simp add: removeMessages_def getSessionId_def)

lemma setSessionId_string:
  "setSessionId (Some (JStr s)) ls = (if s = [] then ls else ls\<lparr>sessionId_item := Some s\<rparr>)"
  by (simp add: setSessionId_def)

lemma setSessionId_falsy:
  "\<not> opt_truthy i \<Longrightarrow> setSessionId i ls = ls"
  by (simp add: setSessionId_def opt_truthy_def split: option.splits)

lemma string_or_absent_cases:
  "string_or_absent i \<Longrightarrow> i = None \<or> i = Some JNull \<or> (\<exists>s. i = Some (JStr s))"
  by (cases i) (auto simp: string_or_absent_def split: json.splits)

lemma kos_setSessionId:
  "string_or_absent i \<Longrightarrow> kept_or_set (getSessionId ls) (getSessionId (setSessionId i ls))"
  using string_or_absent_cases [of i]
  by (auto simp: kept_or_set_def setSessionId_def getSessionId_def truthy_def)

lemma storage_setSessionIdState:
  "localStorage (setSessionIdState i st) = setSessionId i (localStorage st)"
  by (cases "opt_truthy i")
     (simp_all add: setSessionIdState_def Let_def setSessionId_falsy
        split: option.splits json.splits)

lemma kos_setSessionIdState:
  "string_or_absent i \<Longrightarrow>
     kept_or_set (getSessionId (localStorage st)) (getSessionId (localStorage (setSessionIdState i st)))"
  by (simp add: storage_setSessionIdState kos_setSessionId)

lemma sid_upsertSession:
  "upsertSession i t n st = Inr st' \<Longrightarrow> getSessionId (localStorage st') = getSessionId (localStorage st)"
  by (auto simp: upsertSession_def bind_exn_def Let_def sid_saveSessions split: sum.splits)

lemma sid_flush: "getSessionId (localStorage (flush c q st)) = getSessionId (localStorage st)"
proof (induction q arbitrary: st)
  case Nil
  show ?case by (simp add: flush.simps)
next
  case (Cons u q)
  show ?case
    by (cases u)
       (auto simp: flush.simps Cons.IH bind_exn_def sid_saveMessages sid_removeMessages
             split: sum.splits)
qed

lemma kos_sendChatMessage_settled:
  "string_or_absent (response_session_id fr) \<Longrightarrow>
     kept_or_set (getSessionId ls) (getSessionId (snd (sendChatMessage_settled fr ls)))"
  by (auto simp: sendChatMessage_settled_def response_session_id_def kos_refl kos_setSessionId
           split: fetch_result.splits sum.splits)

lemma kos_sendMessage_settled:
  assumes "string_or_absent (response_session_id fr)"
  shows "kept_or_set (getSessionId (localStorage st))
     (getSessionId (localStorage (snd (sendMessage_settled fr st))))"
proof -
  obtain r ls' where s: "sendChatMessage_settled fr (localStorage st) = (r, ls')"
    by (cases "sendChatMessage_settled fr (localStorage st)")
  have a: "kept_or_set (getSessionId (localStorage st)) (getSessionId ls')"
    using kos_sendChatMessage_settled [OF assms, of "localStorage st"] s by simp
  show ?thesis
  proof (cases r)
    case (Inl e)
    then show ?thesis using a s by (simp add: sendMessage_settled_def)
  next
    case (Inr d)
    have d: "response_session_id fr = get_prop d (js ''session_id'')"
      using s Inr
      by (auto simp: sendChatMessage_settled_def response_session_id_def
               split: fetch_result.splits sum.splits if_splits)
    have "kept_or_set (getSessionId ls')
            (getSessionId (localStorage (setSessionIdState (get_prop d (js ''session_id''))
                                           (st\<lparr>localStorage := ls'\<rparr>))))"
      using kos_setSessionIdState [of "get_prop d (js ''session_id'')" "st\<lparr>localStorage := ls'\<rparr>"]
        assms d by simp
    then show ?thesis using a s Inr
      by (auto simp: sendMessage_settled_def Let_def intro: kos_trans)
  qed
qed

lemma storage_run_effects:
  "localStorage (run_effects f prev st) =
     save_effect f prev st (persist_effect f prev st (localStorage st))"
  by (simp add: run_effects_def Let_def split: sum.splits)

lemma sid_save_effect: "getSessionId (save_effect f prev st ls) = getSessionId ls"
  by (simp add: save_effect_def sid_saveMessages)

lemma kos_persist_effect:
  "kept_or_set (getSessionId ls) (getSessionId (persist_effect f prev st ls))"
  by (auto simp: persist_effect_def kos_refl setSessionId_def id_js_def truthy_def
        kept_or_set_def getSessionId_def split: option.splits)

lemma kos_run_effects:
  "kept_or_set (getSessionId (localStorage st)) (getSessionId (localStorage (run_effects f prev st)))"
  by (simp add: storage_run_effects sid_save_effect kos_persist_effect)

lemma kos_settle:
  "kept_or_set (getSessionId (localStorage st)) (getSessionId (localStorage (settle n prev st)))"
proof (induction n arbitrary: prev st)
  case 0
  show ?case by (simp add: kos_refl)
next
  case (Suc n)
  have a: "kept_or_set (getSessionId (localStorage st))
             (getSessionId (localStorage (run_effects False prev st)))"
    by (rule kos_run_effects)
  have b: "kept_or_set (getSessionId (localStorage st))
             (getSessionId (localStorage (settle n st (run_effects False prev st))))"
    using a Suc.IH [of "run_effects False prev st" st] by (rule kos_trans)
  show ?case using a b by (simp add: Let_def)
qed

lemma kos_onSend_open:
  "kept_or_set (getSessionId (localStorage st))
     (getSessionId (localStorage (fst (onSend_open u1 txt t1 st))))"
proof (cases "truthy (activeId st)")
  case True
  then show ?thesis by (simp add: onSend_open_def kos_refl)
next
  case False
  let ?st2 = "setSessionIdState (Some (JStr (makeLocalId u1)))
                (st\<lparr>err := [], isSending := True, input := [], activeId := Some (makeLocalId u1)\<rparr>)"
  have k: "kept_or_set (getSessionId (localStorage st)) (getSessionId (localStorage ?st2))"
    using kos_setSessionIdState
      [of "Some (JStr (makeLocalId u1))"
          "st\<lparr>err := [], isSending := True, input := [], activeId := Some (makeLocalId u1)\<rparr>"]
    by (simp add: string_or_absent_def)
  show ?thesis
  proof (cases "upsertSession (makeLocalId u1) (formatTitle txt) t1 ?st2")
    case (Inl e)
    then show ?thesis using False k by (simp add: onSend_open_def Let_def)
  next
    case (Inr st3)
    then show ?thesis using False k sid_upsertSession [OF Inr] by (simp add: onSend_open_def Let_def)
  qed
qed

lemma sid_onSend_post:
  "getSessionId (localStorage (fst (onSend_post c txt u2 t2 st))) = getSessionId (localStorage st)"
proof (cases "upsertSession c (formatTitle txt) t2 st")
  case (Inl e)
  then show ?thesis by (simp add: onSend_post_def sid_flush)
next
  case (Inr st')
  then show ?thesis using sid_upsertSession [OF Inr] by (simp add: onSend_post_def Let_def sid_flush)
qed

lemma kos_onSend_begin:
  "kept_or_set (getSessionId (localStorage st))
     (getSessionId (localStorage (fst (onSend_begin u1 u2 t1 t2 st))))"
proof (cases "trim (input st) = [] \<or> isSending st")
  case True
  then show ?thesis by (simp add: onSend_begin_def kos_refl)
next
  case False
  obtain st' e where o: "onSend_open u1 (trim (input st)) t1 st = (st', e)"
    by (cases "onSend_open u1 (trim (input st)) t1 st")
  have k: "kept_or_set (getSessionId (localStorage st)) (getSessionId (localStorage st'))"
    using kos_onSend_open [of st u1 "trim (input st)" t1] o by simp
  show ?thesis
    using False o k by (cases e) (simp_all add: onSend_begin_def sid_onSend_post)
qed

lemma kos_onSend_rekey:
  "onSend_rekey c r st = Inr st2 \<Longrightarrow>
     kept_or_set (getSessionId (localStorage st)) (getSessionId (localStorage st2))"
proof -
  assume a: "onSend_rekey c r st = Inr st2"
  then obtain updated where
    st2: "st2 = setSessionIdState (Some (JStr r))
                 (st\<lparr>localStorage := saveSessions (JArr updated) (localStorage st),
                     sessions := JArr updated, activeId := Some r\<rparr>)"
    by (auto simp: onSend_rekey_def bind_exn_def split: sum.splits)
  show ?thesis
    unfolding st2
    using kos_setSessionIdState
      [of "Some (JStr r)" "st\<lparr>localStorage := saveSessions (JArr updated) (localStorage st),
                     sessions := JArr updated, activeId := Some r\<rparr>"]
    by (simp add: sid_saveSessions string_or_absent_def)
qed

lemma kos_onSend_resume:
  assumes sa: "string_or_absent (response_session_id fr)"
  shows "kept_or_set (getSessionId (localStorage st))
     (getSessionId (localStorage (onSend_resume k fr u st)))"
proof -
  obtain r st1 where s: "sendMessage_settled fr st = (r, st1)"
    by (cases "sendMessage_settled fr st")
  have k1: "kept_or_set (getSessionId (localStorage st)) (getSessionId (localStorage st1))"
    using kos_sendMessage_settled [OF sa, of st] s by simp
  show ?thesis
  proof (cases r)
    case (Inl e)
    then show ?thesis using s k1 by (simp add: onSend_resume_def)
  next
    case (Inr result)
    show ?thesis
    proof (cases "untracked st1")
      case True
      then show ?thesis using s k1 Inr by (simp add: onSend_resume_def)
    next
      case tracked: False
      show ?thesis
      proof (cases "onSend_realId k result")
        case None
        then show ?thesis using s k1 Inr tracked by (simp add: onSend_resume_def)
      next
        case (Some realId)
        show ?thesis
        proof (cases "prefix (js ''local-'') (k_currentId k) \<and> truthy (Some realId) \<and> realId \<noteq> k_currentId k")
          case False
          then show ?thesis using s k1 Inr Some tracked by (auto simp: onSend_resume_def sid_flush)
        next
          case True
          let ?st1' = "if hook_sessionId st1 \<noteq> hook_sessionId st then st1
                       else flush (k_currentId k) [Rekey realId] st1"
          have k1': "kept_or_set (getSessionId (localStorage st)) (getSessionId (localStorage ?st1'))"
            using k1 by (simp add: sid_flush)
          show ?thesis
          proof (cases "onSend_rekey (k_currentId k) realId ?st1'")
            case (Inl e)
            then show ?thesis using s k1' Inr Some True tracked
              by (simp add: onSend_resume_def Let_def sid_flush)
          next
            case rk: (Inr st2)
            have "kept_or_set (getSessionId (localStorage st)) (getSessionId (localStorage st2))"
              using k1' kos_onSend_rekey [OF rk] by (rule kos_trans)
            then show ?thesis using s Inr Some True rk tracked
              by (simp add: onSend_resume_def Let_def sid_flush)
          qed
        qed
      qed
    qed
  qed
qed

lemma kos_startNewChat:
  "kept_or_set (getSessionId (localStorage st)) (getSessionId (localStorage (fst (startNewChat u t st))))"
proof -
  let ?st3 = "setSessionIdState (Some (JStr (makeLocalId u)))
      ((clearSessionIdState (st\<lparr>err := [], input := [], isSending := False\<rparr>))\<lparr>activeId := Some (makeLocalId u)\<rparr>)"
  have k: "kept_or_set (getSessionId (localStorage st)) (getSessionId (localStorage ?st3))"
    by (simp add: storage_setSessionIdState setSessionId_string makeLocalId_nonempty truthy_def
          kept_or_set_def getSessionId_def)
  show ?thesis
  proof (cases "upsertSession (makeLocalId u) (js ''New chat'') t ?st3")
    case (Inl e)
    then show ?thesis using k by (simp add: startNewChat_def Let_def)
  next
    case (Inr st4)
    then show ?thesis using k sid_upsertSession [OF Inr] by (simp add: startNewChat_def Let_def)
  qed
qed

lemma string_or_null_absent: "string_or_null i \<Longrightarrow> string_or_absent i"
  by (simp add: string_or_null_def string_or_absent_def split: option.splits json.splits)

lemma storage_selectSession:
  "localStorage (selectSession i st) = setSessionId i (localStorage st)"
  by (simp add: selectSession_def storage_setSessionIdState split: option.splits json.splits)

lemma kos_selectSession:
  "string_or_null i \<Longrightarrow>
     kept_or_set (getSessionId (localStorage st)) (getSessionId (localStorage (selectSession i st)))"
  by (simp add: storage_selectSession kos_setSessionId string_or_null_absent)

lemma sid_deleteChat:
  "getSessionId (localStorage (fst (deleteChat i st))) = getSessionId (localStorage st)
   \<or> getSessionId (localStorage (fst (deleteChat i st))) = None"
proof (cases "bind_exn (loadSessions (localStorage st)) (sessions_without i)")
  case (Inl e)
  then show ?thesis by (simp add: deleteChat_def)
next
  case (Inr kept)
  then show ?thesis
    by (simp add: deleteChat_def Let_def clearSessionIdState_def clearSessionId_def
          sid_saveSessions sid_removeMessages getSessionId_def saveSessions_def removeMessages_def)
qed

lemma sid_committed:
  "kept_or_set (getSessionId (localStorage st)) (stored_id (committed w st e))"
  by (simp add: committed_def stored_id_def kos_settle)

lemma hook_run_effects: "hook_sessionId (run_effects f prev st) = hook_sessionId st"
  by (simp add: run_effects_def Let_def split: sum.splits)

lemma sid_run_effects_quiet:
  "hook_sessionId st = hook_sessionId prev \<or> \<not> truthy (hook_sessionId st) \<Longrightarrow>
     getSessionId (localStorage (run_effects False prev st)) = getSessionId (localStorage st)"
  by (auto simp: storage_run_effects save_effect_def persist_effect_def sid_saveMessages)

lemma sid_settle_quiet:
  "hook_sessionId st = hook_sessionId prev \<or> \<not> truthy (hook_sessionId st) \<Longrightarrow>
     getSessionId (localStorage (settle n prev st)) = getSessionId (localStorage st)"
proof (induction n arbitrary: prev st)
  case 0
  show ?case by simp
next
  case (Suc n)
  have a: "getSessionId (localStorage (run_effects False prev st)) = getSessionId (localStorage st)"
    using Suc.prems by (rule sid_run_effects_quiet)
  have "getSessionId (localStorage (settle n st (run_effects False prev st)))
          = getSessionId (localStorage (run_effects False prev st))"
    by (rule Suc.IH) (simp add: hook_run_effects)
  then show ?case using a by (simp add: Let_def)
qed

lemma hook_deleteChat:
  "hook_sessionId (fst (deleteChat i st)) = hook_sessionId st
   \<or> hook_sessionId (fst (deleteChat i st)) = None"
  by (cases "bind_exn (loadSessions (localStorage st)) (sessions_without i)")
     (simp_all add: deleteChat_def Let_def clearSessionIdState_def)

lemma kos_step:
  assumes "\<not> is_delete ev" and si: "string_ids ev"
  shows "kept_or_set (stored_id w) (stored_id (step ev w))"
proof (cases ev)
  case (Typed s)
  then show ?thesis by (simp add: stored_id_def kos_refl)
next
  case (Send u1 u2 t1 t2)
  obtain st r where o: "onSend_begin u1 u2 t1 t2 (ui w) = (st, r)"
    by (cases "onSend_begin u1 u2 t1 t2 (ui w)")
  have "kept_or_set (stored_id w) (getSessionId (localStorage st))"
    using kos_onSend_begin [of "ui w" u1 u2 t1 t2] o by (simp add: stored_id_def)
  then have "kept_or_set (stored_id w) (stored_id (committed w st e))" for e
    using sid_committed by (rule kos_trans)
  then show ?thesis using Send o
    by (cases r) (simp_all add: kos_refl stored_id_def)
next
  case (Settle n fr u)
  have sa: "string_or_absent (response_session_id fr)"
    using si Settle by simp
  have "kept_or_set (stored_id w)
          (getSessionId (localStorage (onSend_resume (snd (pending w ! n)) fr u (ui w))))"
    unfolding stored_id_def using sa by (rule kos_onSend_resume)
  then have "kept_or_set (stored_id w)
          (stored_id (committed w (onSend_resume (snd (pending w ! n)) fr u (ui w)) None))"
    using sid_committed by (rule kos_trans)
  then show ?thesis using Settle by (simp add: kos_refl stored_id_def)
next
  case (NewChat u t)
  obtain st e where o: "startNewChat u t (ui w) = (st, e)"
    by (cases "startNewChat u t (ui w)")
  have "kept_or_set (stored_id w) (getSessionId (localStorage st))"
    using kos_startNewChat [of "ui w" u t] o by (simp add: stored_id_def)
  then have "kept_or_set (stored_id w) (stored_id (committed w st e))"
    using sid_committed by (rule kos_trans)
  then show ?thesis using NewChat o by (simp add: kos_refl)
next
  case (Select i)
  have sa: "string_or_null i" using si Select by simp
  have "kept_or_set (stored_id w) (getSessionId (localStorage (selectSession i (ui w))))"
    unfolding stored_id_def using sa by (rule kos_selectSession)
  then have "kept_or_set (stored_id w) (stored_id (committed w (selectSession i (ui w)) None))"
    using sid_committed by (rule kos_trans)
  then show ?thesis using Select by (simp add: kos_refl)
next
  case (Delete i)
  then show ?thesis using assms by simp
qed

lemma sid_step_delete:
  "stored_id (step (Delete i) w) = stored_id w \<or> stored_id (step (Delete i) w) = None"
proof (cases "untracked (ui w) \<or> i \<notin> set (rendered_ids (sessions (ui w)))")
  case True
  then show ?thesis by auto
next
  case False
  obtain st e where o: "deleteChat i (ui w) = (st, e)"
    by (cases "deleteChat i (ui w)")
  have h: "hook_sessionId st = hook_sessionId (ui w) \<or> \<not> truthy (hook_sessionId st)"
    using hook_deleteChat [of i "ui w"] o by (auto simp: truthy_def)
  have "stored_id (committed w st e) = getSessionId (localStorage st)"
    using sid_settle_quiet [OF h] by (simp add: committed_def stored_id_def)
  moreover have "getSessionId (localStorage st) = stored_id w \<or> getSessionId (localStorage st) = None"
    using sid_deleteChat [of i "ui w"] o by (simp add: stored_id_def)
  ultimately show ?thesis using False o by auto
qed

lemma sid_ok_step:
  assumes a: "sid_ok (stored_id w)" and si: "string_ids ev"
  shows "sid_ok (stored_id (step ev w))"
proof (cases "is_delete ev")
  case False
  show ?thesis using a kos_step [OF False si, of w] by (auto simp: sid_ok_def kept_or_set_def)
next
  case True
  from True obtain i where "ev = Delete i" by (cases ev) simp_all
  then show ?thesis using a sid_step_delete [of i w] by (auto simp: sid_ok_def)
qed

lemma sid_ok_run:
  "sid_ok (stored_id w) \<Longrightarrow> list_all string_ids evs \<Longrightarrow> sid_ok (stored_id (run evs w))"
proof (induction evs arbitrary: w)
  case Nil
  then show ?case by (simp add: run_def)
next
  case (Cons ev evs)
  have "sid_ok (stored_id (step ev w))" using Cons.prems by (simp add: sid_ok_step)
  moreover have "list_all string_ids evs" using Cons.prems by simp
  ultimately have "sid_ok (stored_id (run evs (step ev w)))" by (rule Cons.IH)
  then show ?case by (simp add: run_def)
qed

lemma kos_mount: "kept_or_set (getSessionId ls) (stored_id (start ls))"
proof -
  have i: "localStorage (initial_state ls) = ls"
    by (simp add: initial_state_def Let_def bind_exn_def split: sum.splits)
  have a: "kept_or_set (getSessionId ls)
      (getSessionId (localStorage (run_effects True (initial_state ls) (initial_state ls))))"
    using kos_run_effects [of "initial_state ls" True "initial_state ls"] i by simp
  have b: "kept_or_set (getSessionId ls)
      (getSessionId (localStorage (settle 4 (initial_state ls)
          (run_effects True (initial_state ls) (initial_state ls)))))"
    using a kos_settle by (rule kos_trans)
  show ?thesis using a b by (simp add: start_def stored_id_def mount_def Let_def)
qed

section \<open>The effects settle\<close>

text \<open>
  After a handler the effects cause at most two further renders: the third commit
  changes nothing in the state of the component, so the rounds given to \<open>settle\<close> are
  never used up.
\<close>

lemma safeParse_returns: "\<exists>v. safeParse item fallback = Inr v"
  by (simp add: safeParse_def JSON_parse_def bind_exn_def
        split: option.splits cell.splits sum.splits)

lemma loadMessages_returns: "\<exists>v. loadMessages i ls = Inr v"
  by (simp add: loadMessages_def safeParse_returns)

lemma load_effect_returns: "\<exists>m. load_effect f p s ls = Inr m"
  using loadMessages_returns [of "id_js (activeId s)" ls]
  by (auto simp: load_effect_def)

lemma run_effects_shape:
  "\<exists>m. run_effects f p s =
     s\<lparr>localStorage := save_effect f p s (persist_effect f p s (localStorage s)),
       activeId := follow_effect f p s, messages := m\<rparr>
     \<and> load_effect f p s (persist_effect f p s (localStorage s)) = Inr m"
  using load_effect_returns [of f p s "persist_effect f p s (localStorage s)"]
  by (auto simp: run_effects_def Let_def)

lemma activeId_run_effects: "activeId (run_effects f p s) = follow_effect f p s"
  using run_effects_shape [of f p s] by auto

lemma messages_run_effects_same:
  "activeId s = activeId p \<Longrightarrow> messages (run_effects False p s) = messages s"
  using run_effects_shape [of False p s] by (auto simp: load_effect_def)

lemma untracked_run_effects: "untracked (run_effects f p s) = untracked s"
  using run_effects_shape [of f p s] by auto

lemma follow_twice:
  "follow_effect False s (run_effects False p s) = activeId (run_effects False p s)"
proof -
  have "follow_effect False s (run_effects False p s) =
      (if activeId (run_effects False p s) \<noteq> activeId s \<and> truthy (hook_sessionId s)
          \<and> hook_sessionId s \<noteq> activeId (run_effects False p s)
       then hook_sessionId s else activeId (run_effects False p s))"
    by (simp add: follow_effect_def [of False s] hook_run_effects)
  moreover have "activeId (run_effects False p s) = hook_sessionId s"
    if "activeId (run_effects False p s) \<noteq> activeId s"
    using that by (auto simp: activeId_run_effects follow_effect_def split: if_splits)
  ultimately show ?thesis by auto
qed

lemma settle_stable_after_two:
  "settle (Suc n) (run_effects False p s) (run_effects False s (run_effects False p s))
     = run_effects False (run_effects False p s) (run_effects False s (run_effects False p s))"
proof -
  let ?s1 = "run_effects False p s"
  let ?s2 = "run_effects False s ?s1"
  let ?s3 = "run_effects False ?s1 ?s2"
  have a21: "activeId ?s2 = activeId ?s1"
    by (simp add: activeId_run_effects follow_twice)
  have a32: "activeId ?s3 = activeId ?s2"
    by (simp add: activeId_run_effects [of False ?s1 ?s2] follow_effect_def hook_run_effects a21)
  have m32: "messages ?s3 = messages ?s2"
    using a21 by (rule messages_run_effects_same)
  show ?thesis using a32 m32 by (simp add: Let_def)
qed

lemma settle_fuel: "settle (Suc (Suc (Suc n))) p s = settle (Suc (Suc (Suc 0))) p s"
proof -
  have "settle (Suc (Suc (Suc k))) p s =
      (let s1 = run_effects False p s in
       if untracked s1 \<or> (activeId s1 = activeId s \<and> messages s1 = messages s) then s1
       else (let s2 = run_effects False s s1 in
             if untracked s2 \<or> (activeId s2 = activeId s1 \<and> messages s2 = messages s1) then s2
             else run_effects False s1 s2))" for k
    using settle_stable_after_two [of k p s] by (simp add: Let_def)
  then show ?thesis by simp
qed

section \<open>Loading from localStorage\<close>

text \<open>
  C9, as amended. \<^verbatim>\<open>safeParse\<close>, \<^verbatim>\<open>loadSessions\<close> and \<^verbatim>\<open>loadMessages\<close> return a value and
  never throw, whatever is stored. For an absent key, a malformed text and the text \<^verbatim>\<open>null\<close>
  they return the fallback, which for the two loaders is the empty array; for any other
  well-formed text they return what it parses to, which need not be an array.
  \<^verbatim>\<open>loadMessages\<close> of a \<^verbatim>\<open>null\<close> or empty session id returns the empty array.
\<close>

theorem C9_loaders_return:
  "(\<exists>v. safeParse item fallback = Inr v)
   \<and> (\<exists>v. loadSessions ls = Inr v)
   \<and> (\<exists>v. loadMessages sessionId ls = Inr v)
   \<and> safeParse None fallback = Inr fallback
   \<and> safeParse (Some Malformed) fallback = Inr fallback
   \<and> safeParse (Some (Parsed JNull)) fallback = Inr fallback
   \<and> safeParse (Some (Parsed (JBool b))) fallback = Inr (JBool b)
   \<and> safeParse (Some (Parsed (JNum n))) fallback = Inr (JNum n)
   \<and> safeParse (Some (Parsed (JStr s))) fallback = Inr (JStr s)
   \<and> safeParse (Some (Parsed (JArr xs))) fallback = Inr (JArr xs)
   \<and> safeParse (Some (Parsed (JObj ps))) fallback = Inr (JObj ps)
   \<and> loadSessions (ls\<lparr>sessions_item := None\<rparr>) = Inr (JArr [])
   \<and> loadSessions (ls\<lparr>sessions_item := Some Malformed\<rparr>) = Inr (JArr [])
   \<and> loadSessions (ls\<lparr>sessions_item := Some (Parsed JNull)\<rparr>) = Inr (JArr [])
   \<and> loadSessions (ls\<lparr>sessions_item := Some (Parsed (JObj ps))\<rparr>) = Inr (JObj ps)
   \<and> loadMessages (JStr (c # cs)) (ls\<lparr>messages_item := (messages_item ls)(c # cs := None)\<rparr>)
       = Inr (JArr [])
   \<and> loadMessages (JStr (c # cs)) (ls\<lparr>messages_item := (messages_item ls)(c # cs := Some Malformed)\<rparr>)
       = Inr (JArr [])
   \<and> loadMessages (JStr (c # cs))
         (ls\<lparr>messages_item := (messages_item ls)(c # cs := Some (Parsed JNull))\<rparr>)
       = Inr (JArr [])
   \<and> loadMessages (JStr (c # cs))
         (ls\<lparr>messages_item := (messages_item ls)(c # cs := Some (Parsed (JNum n)))\<rparr>)
       = Inr (JNum n)
   \<and> loadMessages JNull ls = Inr (JArr [])
   \<and> loadMessages (JStr []) ls = Inr (JArr [])"
  by (simp add: safeParse_def loadSessions_def loadMessages_def JSON_parse_def bind_exn_def
        split: option.splits cell.splits sum.splits)

text \<open>
  The claim C9 as stated fails. The text stored under \<^verbatim>\<open>policyChat.sessions\<close> is \<^verbatim>\<open>5\<close>, and
  the text stored under \<^verbatim>\<open>policyChat.messages.s1\<close> is \<^verbatim>\<open>{"a":1}\<close>: the loaders return the
  number and the object, not the fallback, and neither is an array.
\<close>

theorem C9_stored_number_is_returned:
  "loadSessions (empty_storage\<lparr>sessions_item := Some (Parsed (JNum 5))\<rparr>) = Inr (JNum 5)
   \<and> loadMessages (JStr (js ''s1''))
        (empty_storage\<lparr>messages_item := (\<lambda>i. if i = js ''s1''
                                                then Some (Parsed (JObj [(js ''a'', JNum 1)]))
                                                else None)\<rparr>)
       = Inr (JObj [(js ''a'', JNum 1)])
   \<and> safeParse (Some (Parsed (JBool False))) (JArr []) = Inr (JBool False)"
  by code_simp

section \<open>The guard of \<^verbatim>\<open>onSend\<close>\<close>

lemma run_effects_same: "run_effects False st st = st"
  by (simp add: run_effects_def persist_effect_def load_effect_def save_effect_def follow_effect_def)

lemma settle_same: "settle n st st = st"
  by (cases n) (simp_all add: run_effects_same Let_def)

lemma committed_same: "committed w (ui w) None = w"
  by (simp add: committed_def settle_same)

lemma js_message_not_session_id: "js ''message'' \<noteq> js ''session_id''"
  by (simp add: js_def)

lemma message_of_body: "message_of (chat_request_body m ov ls) = Some (JStr m)"
  by (simp add: chat_request_body_def message_of_def get_prop_def Let_def
        js_message_not_session_id)

lemma onSend_post_sent:
  "onSend_post c txt u2 t2 st = (st', Sent body k) \<Longrightarrow> message_of body = Some (JStr txt)"
  by (cases "upsertSession c (formatTitle txt) t2 st")
     (auto simp: onSend_post_def Let_def message_of_body)

lemma onSend_begin_sent:
  assumes "onSend_begin u1 u2 t1 t2 st = (st', Sent body k)"
  shows "trim (input st) \<noteq> [] \<and> message_of body = Some (JStr (trim (input st)))"
proof -
  have g: "\<not> (trim (input st) = [] \<or> isSending st)"
    using assms by (auto simp: onSend_begin_def)
  obtain st1 e where o: "onSend_open u1 (trim (input st)) t1 st = (st1, e)"
    by (cases "onSend_open u1 (trim (input st)) t1 st")
  have "onSend_post (onSend_currentId u1 st) (trim (input st)) u2 t2 st1 = (st', Sent body k)"
    using assms g o by (cases e) (simp_all add: onSend_begin_def)
  then show ?thesis using g onSend_post_sent by blast
qed

text \<open>
  C3. When the trimmed input is empty, \<^verbatim>\<open>onSend\<close> returns at its guard: the state of the
  component and localStorage are what they were and no request is posted. A request that
  \<^verbatim>\<open>onSend\<close> does post carries the trimmed input as its message, which is not empty.
  (\<^verbatim>\<open>trim\<close> strips every white space and line terminator of ECMAScript, so an input of
  such characters only is empty when trimmed.)
\<close>

theorem C3_empty_input_is_ignored:
  assumes "trim (input (ui w)) = []"
  shows "onSend_begin u1 u2 t1 t2 (ui w) = (ui w, Ignored)
       \<and> step (Send u1 u2 t1 t2) w = w
       \<and> (\<forall>st st' body k. onSend_begin u1 u2 t1 t2 st = (st', Sent body k)
             \<longrightarrow> message_of body = Some (JStr (trim (input st))) \<and> trim (input st) \<noteq> [])"
proof (intro conjI allI impI)
  show a: "onSend_begin u1 u2 t1 t2 (ui w) = (ui w, Ignored)"
    using assms by (simp add: onSend_begin_def)
  show "step (Send u1 u2 t1 t2) w = w"
    by (simp add: a committed_same)
next
  fix st st' body k
  assume "onSend_begin u1 u2 t1 t2 st = (st', Sent body k)"
  then show "message_of body = Some (JStr (trim (input st)))" and "trim (input st) \<noteq> []"
    using onSend_begin_sent by blast+
qed

theorem C3_empty_input_witness:
  "trim (input (ui (run [Typed [32, 160, 9, 8232, 65279, 12288]] (start empty_storage)))) = []
   \<and> step (Send (js ''u1'') (js ''m1'') (js ''t1'') (js ''t2''))
        (run [Typed [32, 160, 9, 8232, 65279, 12288]] (start empty_storage))
       = run [Typed [32, 160, 9, 8232, 65279, 12288]] (start empty_storage)
   \<and> pending (step (Send (js ''u1'') (js ''m1'') (js ''t1'') (js ''t2''))
        (run [Typed [32, 160, 9, 8232, 65279, 12288]] (start empty_storage))) = []"
proof -
  have h: "trim (input (ui (run [Typed [32, 160, 9, 8232, 65279, 12288]] (start empty_storage)))) = []"
    by code_simp
  have p: "pending (run [Typed [32, 160, 9, 8232, 65279, 12288]] (start empty_storage)) = []"
    by code_simp
  show ?thesis
    using h p C3_empty_input_is_ignored [OF h, of "js ''u1''" "js ''m1''" "js ''t1''" "js ''t2''"]
    by simp
qed

section \<open>One message at a time\<close>

lemma sending_flush: "isSending (flush c q st) = isSending st"
proof (induction q arbitrary: st)
  case Nil
  show ?case by (simp add: flush.simps)
next
  case (Cons x q)
  show ?case
    by (cases "run_updater c x (messages st) (localStorage st)")
       (auto simp: flush.simps Cons.IH)
qed

lemma sending_setSessionIdState: "isSending (setSessionIdState i st) = isSending st"
  by (simp add: setSessionIdState_def Let_def split: option.splits json.splits)

lemma sending_upsertSession: "upsertSession i t n st = Inr st' \<Longrightarrow> isSending st' = isSending st"
  by (auto simp: upsertSession_def bind_exn_def Let_def split: sum.splits)

lemma sending_onSend_rekey: "onSend_rekey c r st = Inr st' \<Longrightarrow> isSending st' = isSending st"
  by (auto simp: onSend_rekey_def bind_exn_def sending_setSessionIdState split: sum.splits)

lemma sending_onSend_resume: "isSending (onSend_resume k fr u st) = False"
proof -
  obtain r st1 where s: "sendMessage_settled fr st = (r, st1)"
    by (cases "sendMessage_settled fr st")
  show ?thesis
  proof (cases r)
    case (Inl e)
    then show ?thesis using s by (simp add: onSend_resume_def)
  next
    case (Inr result)
    show ?thesis
    proof (cases "untracked st1")
      case True
      then show ?thesis using s Inr by (simp add: onSend_resume_def)
    next
      case tracked: False
      show ?thesis
      proof (cases "onSend_realId k result")
        case None
        then show ?thesis using s Inr tracked by (simp add: onSend_resume_def)
      next
        case (Some realId)
        let ?st1' = "if hook_sessionId st1 \<noteq> hook_sessionId st then st1
                     else flush (k_currentId k) [Rekey realId] st1"
        show ?thesis
        proof (cases "onSend_rekey (k_currentId k) realId ?st1'")
          case (Inl e)
          then show ?thesis using s Inr Some tracked
            by (simp add: onSend_resume_def Let_def sending_flush)
        next
          case rk: (Inr st2)
          then show ?thesis using s Inr Some tracked
            by (simp add: onSend_resume_def Let_def sending_flush)
        qed
      qed
    qed
  qed
qed

lemma sending_startNewChat: "isSending (fst (startNewChat u t st)) = False"
proof -
  let ?st3 = "setSessionIdState (Some (JStr (makeLocalId u)))
      ((clearSessionIdState (st\<lparr>err := [], input := [], isSending := False\<rparr>))\<lparr>activeId := Some (makeLocalId u)\<rparr>)"
  have a: "isSending ?st3 = False"
    by (simp add: sending_setSessionIdState clearSessionIdState_def)
  show ?thesis
  proof (cases "upsertSession (makeLocalId u) (js ''New chat'') t ?st3")
    case (Inl e)
    then show ?thesis using a by (simp add: startNewChat_def Let_def)
  next
    case (Inr st4)
    then show ?thesis using a sending_upsertSession [OF Inr] by (simp add: startNewChat_def Let_def)
  qed
qed

text \<open>
  C6, as amended. While \<^verbatim>\<open>isSending\<close> is true, \<^verbatim>\<open>onSend\<close> returns at its guard and posts
  nothing, and the composer's input and the send button are disabled. This gate holds
  only while \<^verbatim>\<open>isSending\<close> stays true: the rest of \<^verbatim>\<open>onSend\<close> sets it to false when the
  request has settled, and \<^verbatim>\<open>startNewChat\<close> sets it to false without waiting for a pending
  request.
\<close>

theorem C6_sending_gate:
  assumes "isSending (ui w)"
  shows "onSend_begin u1 u2 t1 t2 (ui w) = (ui w, Ignored)
       \<and> step (Send u1 u2 t1 t2) w = w
       \<and> input_disabled (ui w) \<and> send_disabled (ui w)
       \<and> step (Typed s) w = w
       \<and> isSending (onSend_resume k fr u st) = False
       \<and> isSending (fst (startNewChat u t st)) = False"
  using assms
  by (simp add: onSend_begin_def committed_same input_disabled_def send_disabled_def
        sending_onSend_resume sending_startNewChat)

theorem C6_sending_gate_witness:
  "isSending (ui (run [Typed (js ''hi''), Send (js ''u1'') (js ''m1'') (js ''t1'') (js ''t2'')]
                    (start empty_storage)))
   \<and> step (Send (js ''u2'') (js ''m2'') (js ''t3'') (js ''t4''))
        (run [Typed (js ''hi''), Send (js ''u1'') (js ''m1'') (js ''t1'') (js ''t2'')]
           (start empty_storage))
       = run [Typed (js ''hi''), Send (js ''u1'') (js ''m1'') (js ''t1'') (js ''t2'')]
           (start empty_storage)
   \<and> send_disabled (ui (run [Typed (js ''hi''), Send (js ''u1'') (js ''m1'') (js ''t1'') (js ''t2'')]
                          (start empty_storage)))"
proof -
  have h: "isSending (ui (run [Typed (js ''hi''), Send (js ''u1'') (js ''m1'') (js ''t1'') (js ''t2'')]
                            (start empty_storage)))"
    by code_simp
  show ?thesis
    using h C6_sending_gate [OF h, of "js ''u2''" "js ''m2''" "js ''t3''" "js ''t4''"] by simp
qed

text \<open>
  The claim C6 as stated fails. A first exchange gives the chat the server's id
  \<^verbatim>\<open>srv-1\<close>; a second message is posted on it; before it is answered the user starts a
  new chat, which enables the composer again, goes back to the chat \<^verbatim>\<open>srv-1\<close> and sends a
  third message. Two requests on the session \<^verbatim>\<open>srv-1\<close> are then in flight.
\<close>

theorem C6_two_requests_in_flight:
  "map fst (pending (run [Typed (js ''hi''), Send (js ''u1'') (js ''m1'') (js ''t1'') (js ''t2''),
                          Settle 0 reply_srv1 (js ''m2''),
                          Typed (js ''again''), Send (js ''u3'') (js ''m3'') (js ''t3'') (js ''t4''),
                          NewChat (js ''u4'') (js ''t5''), Select (Some (JStr (js ''srv-1''))),
                          Typed (js ''b''), Send (js ''u5'') (js ''m5'') (js ''t6'') (js ''t7'')]
                       (start empty_storage)))
     = [JObj [(js ''session_id'', JStr (js ''srv-1'')), (js ''message'', JStr (js ''again''))],
        JObj [(js ''session_id'', JStr (js ''srv-1'')), (js ''message'', JStr (js ''b''))]]"
  by code_simp

section \<open>A response that is not \<^verbatim>\<open>ok\<close>\<close>

lemma settled_not_ok:
  "\<not> res_ok res \<Longrightarrow>
     sendChatMessage_settled (Response res) ls = (Inl (Error (backend_error res)), ls)"
  by (simp add: sendChatMessage_settled_def)

lemma backend_error_status: "sublist (js (show_nat (res_status res))) (backend_error res)"
  unfolding backend_error_def Let_def by (rule sublist_appendI)

lemma backend_error_nonempty: "backend_error res \<noteq> []"
  by (simp add: backend_error_def Let_def js_def)

text \<open>
  C5. For a response whose \<^verbatim>\<open>ok\<close> is false, \<^verbatim>\<open>sendChatMessage\<close> throws an \<^verbatim>\<open>Error\<close> whose
  message contains the decimal status code, and localStorage (the stored session id with
  it) is what it was. In \<^verbatim>\<open>onSend\<close> the error only sets the banner \<^verbatim>\<open>err\<close> to that message
  and resets \<^verbatim>\<open>isSending\<close>: the message list, the sessions and localStorage are untouched.
  The same holds when \<^verbatim>\<open>fetch\<close> itself rejects.
\<close>

theorem C5_backend_error:
  assumes "\<not> res_ok res"
  shows "\<exists>msg. sendChatMessage_settled (Response res) ls = (Inl (Error msg), ls)
            \<and> sublist (js (show_nat (res_status res))) msg
            \<and> onSend_resume k (Response res) uuid st = st\<lparr>err := msg, isSending := False\<rparr>
            \<and> onSend_resume k (Rejected e) uuid st = st\<lparr>err := err_text e, isSending := False\<rparr>"
proof (intro exI conjI)
  show "sendChatMessage_settled (Response res) ls = (Inl (Error (backend_error res)), ls)"
    using assms by (rule settled_not_ok)
  show "sublist (js (show_nat (res_status res))) (backend_error res)"
    by (rule backend_error_status)
  show "onSend_resume k (Response res) uuid st = st\<lparr>err := backend_error res, isSending := False\<rparr>"
    using assms backend_error_nonempty [of res]
    by (simp add: onSend_resume_def sendMessage_settled_def settled_not_ok err_text_def)
  show "onSend_resume k (Rejected e) uuid st = st\<lparr>err := err_text e, isSending := False\<rparr>"
    by (simp add: onSend_resume_def sendMessage_settled_def sendChatMessage_settled_def)
qed

lemma backend_error_503:
  "backend_error reply_503 = js ''Backend error (503): vector store down''"
  by code_simp

theorem C5_backend_error_witness:
  "\<not> res_ok reply_503
   \<and> (\<exists>msg. sendChatMessage_settled (Response reply_503) empty_storage
               = (Inl (Error msg), empty_storage)
            \<and> sublist (js (show_nat (res_status reply_503))) msg
            \<and> onSend_resume \<lparr>k_currentId = js ''srv-1'', k_sendSessionId = Some (js ''srv-1'')\<rparr>
                 (Response reply_503) (js ''m2'') (mount empty_storage)
               = (mount empty_storage)\<lparr>err := msg, isSending := False\<rparr>)"
proof -
  have h: "\<not> res_ok reply_503" by (simp add: reply_503_def)
  from C5_backend_error [OF h, of empty_storage
      "\<lparr>k_currentId = js ''srv-1'', k_sendSessionId = Some (js ''srv-1'')\<rparr>" "js ''m2''"
      "mount empty_storage"]
  show ?thesis using h by blast
qed

section \<open>Provisional ids\<close>

lemma provisional_id_reaches_body:
  assumes act: "activeId st = Some a"
    and loc: "prefix (js ''local-'') a"
    and sto: "getSessionId (localStorage st) = Some a"
    and snt: "onSend_begin u1 u2 t1 t2 st = (st', Sent body k)"
  shows "body = JObj [(js ''session_id'', JStr a), (js ''message'', JStr (trim (input st)))]
       \<and> k_sendSessionId k = None"
proof -
  have ne: "a \<noteq> []" using loc by (auto simp: js_def)
  have tr: "truthy (activeId st)" using act ne by (simp add: truthy_def)
  have g: "\<not> (trim (input st) = [] \<or> isSending st)"
    using snt by (auto simp: onSend_begin_def)
  let ?st1 = "st\<lparr>err := [], isSending := True, input := []\<rparr>"
  have o: "onSend_open u1 (trim (input st)) t1 st = (?st1, None)"
    using tr by (simp add: onSend_open_def)
  have c: "onSend_currentId u1 st = a"
    using act ne by (simp add: onSend_currentId_def truthy_def)
  have p: "onSend_post a (trim (input st)) u2 t2 ?st1 = (st', Sent body k)"
    using snt g o c by (simp add: onSend_begin_def)
  show ?thesis
  proof (cases "upsertSession a (formatTitle (trim (input st))) t2 ?st1")
    case (Inl e)
    then show ?thesis using p by (simp add: onSend_post_def)
  next
    case (Inr st2)
    have "getSessionId (localStorage st2) = Some a"
      using sid_upsertSession [OF Inr] sto by simp
    then have "chat_request_body (trim (input st)) JNull (localStorage st2)
                 = JObj [(js ''session_id'', JStr a), (js ''message'', JStr (trim (input st)))]"
      using ne by (simp add: chat_request_body_def id_js_def)
    then show ?thesis using p Inr loc by (auto simp: onSend_post_def Let_def id_js_def)
  qed
qed

text \<open>
  C1 fails on the code. The user starts a new chat, which makes the provisional id
  \<^verbatim>\<open>local-u1\<close> the active and the stored id, and sends a message. \<^verbatim>\<open>onSend\<close> passes \<^verbatim>\<open>null\<close>
  for the provisional id (\<open>k_sendSessionId = None\<close>), but \<^verbatim>\<open>sendChatMessage\<close> then falls back
  to the stored id, and the body posted to \<^verbatim>\<open>/chat\<close> carries \<^verbatim>\<open>session_id: local-u1\<close>. The
  lemma above shows the same for every provisional id that is both active and stored.
\<close>

theorem C1_provisional_id_is_posted:
  "activeId (ui (run [NewChat (js ''u1'') (js ''t0''), Typed (js ''hi'')] (start empty_storage)))
     = Some (js ''local-u1'')
   \<and> pending (run [NewChat (js ''u1'') (js ''t0''), Typed (js ''hi''),
                    Send (js ''u2'') (js ''m1'') (js ''t1'') (js ''t2'')]
                (start empty_storage))
       = [(JObj [(js ''session_id'', JStr (js ''local-u1'')), (js ''message'', JStr (js ''hi''))],
           \<lparr>k_currentId = js ''local-u1'', k_sendSessionId = None\<rparr>)]"
  by code_simp

text \<open>
  C2 fails on the code in its last part. After the first exchange of a new chat the
  server's id \<^verbatim>\<open>srv-1\<close> is the stored and the active id, the session entry is re-keyed and
  the messages are stored under the key of \<^verbatim>\<open>srv-1\<close>; but the messages stored under the key
  of the provisional id \<^verbatim>\<open>local-u1\<close> are still there. The updater that removes them reads
  \<^verbatim>\<open>currentId\<close> when React runs it, after line 233 has assigned the server's id to it.
\<close>

theorem C2_provisional_messages_remain:
  "stored_id (run [Typed (js ''hi''), Send (js ''u1'') (js ''m1'') (js ''t1'') (js ''t2''),
                   Settle 0 reply_srv1 (js ''m2'')]
               (start empty_storage)) = Some (js ''srv-1'')
   \<and> activeId (ui (run [Typed (js ''hi''), Send (js ''u1'') (js ''m1'') (js ''t1'') (js ''t2''),
                        Settle 0 reply_srv1 (js ''m2'')]
               (start empty_storage))) = Some (js ''srv-1'')
   \<and> sessions (ui (run [Typed (js ''hi''), Send (js ''u1'') (js ''m1'') (js ''t1'') (js ''t2''),
                        Settle 0 reply_srv1 (js ''m2'')]
               (start empty_storage)))
       = JArr [JObj [(js ''id'', JStr (js ''srv-1'')), (js ''title'', JStr (js ''hi'')),
                     (js ''updatedAt'', JStr (js ''t2''))]]
   \<and> messages_item (localStorage (ui (run [Typed (js ''hi''),
               Send (js ''u1'') (js ''m1'') (js ''t1'') (js ''t2''),
               Settle 0 reply_srv1 (js ''m2'')] (start empty_storage)))) (js ''srv-1'')
       = Some (Parsed (JArr [user_message (js ''m1'') (js ''hi''),
                             assistant_message (js ''m2'')
                               (JObj [(js ''session_id'', JStr (js ''srv-1'')),
                                      (js ''answer'', JStr (js ''ok''))])]))
   \<and> messages_item (localStorage (ui (run [Typed (js ''hi''),
               Send (js ''u1'') (js ''m1'') (js ''t1'') (js ''t2''),
               Settle 0 reply_srv1 (js ''m2'')] (start empty_storage)))) (js ''local-u1'')
       = Some (Parsed (JArr [user_message (js ''m1'') (js ''hi'')]))"
  by code_simp

section \<open>The stored session id\<close>

text \<open>
  C10, as amended. As long as the ids that reach the client are strings (the
  \<^verbatim>\<open>session_id\<close> of a response is a string or absent, the \<^verbatim>\<open>id\<close> of a session entry that
  the user selects is a string or \<^verbatim>\<open>null\<close>), no operation of the client writes an empty
  value under
  \<^verbatim>\<open>policyChat.sessionId\<close>: \<^verbatim>\<open>setSessionId\<close> returns on \<^verbatim>\<open>undefined\<close>, \<^verbatim>\<open>null\<close> and the empty
  string and stores a non-empty string as it is; the hook's setter and every event of the
  client other than the deletion of a chat leave the stored id as it was or store a
  non-empty string; the deletion of a chat leaves it or removes it (through
  \<^verbatim>\<open>clearSessionId\<close>); mounting the component leaves it or stores a non-empty string. So
  from a store whose id is absent or non-empty, every run of the client with such ids
  keeps it absent or non-empty.
\<close>

theorem C10_session_key:
  assumes "sid_ok (stored_id w)" and "list_all string_ids evs"
  shows "sid_ok (stored_id (run evs w))
       \<and> setSessionId None ls = ls
       \<and> setSessionId (Some JNull) ls = ls
       \<and> setSessionId (Some (JStr [])) ls = ls
       \<and> getSessionId (setSessionId (Some (JStr (c # cs))) ls) = Some (c # cs)
       \<and> getSessionId (clearSessionId ls) = None
       \<and> kept_or_set (getSessionId (localStorage st))
           (getSessionId (localStorage (setSessionIdState (Some (JStr s)) st)))
       \<and> localStorage (setSessionIdState (Some JNull) st) = localStorage st
       \<and> kept_or_set (getSessionId ls) (stored_id (start ls))
       \<and> (\<not> is_delete ev \<and> string_ids ev \<longrightarrow> kept_or_set (stored_id w') (stored_id (step ev w')))
       \<and> (stored_id (step (Delete j) w') = stored_id w' \<or> stored_id (step (Delete j) w') = None)"
proof (intro conjI impI)
  show "sid_ok (stored_id (run evs w))"
    using assms by (rule sid_ok_run)
  show "setSessionId None ls = ls" "setSessionId (Some JNull) ls = ls"
    "setSessionId (Some (JStr [])) ls = ls"
    by (simp_all add: setSessionId_def)
  show "getSessionId (setSessionId (Some (JStr (c # cs))) ls) = Some (c # cs)"
    by (simp add: setSessionId_def getSessionId_def)
  show "getSessionId (clearSessionId ls) = None"
    by (simp add: clearSessionId_def getSessionId_def)
  show "kept_or_set (getSessionId (localStorage st))
           (getSessionId (localStorage (setSessionIdState (Some (JStr s)) st)))"
    by (rule kos_setSessionIdState) (simp add: string_or_absent_def)
  show "localStorage (setSessionIdState (Some JNull) st) = localStorage st"
    by (simp add: storage_setSessionIdState setSessionId_def)
  show "kept_or_set (getSessionId ls) (stored_id (start ls))"
    by (rule kos_mount)
  show "stored_id (step (Delete j) w') = stored_id w' \<or> stored_id (step (Delete j) w') = None"
    by (rule sid_step_delete)
next
  assume "\<not> is_delete ev \<and> string_ids ev"
  then show "kept_or_set (stored_id w') (stored_id (step ev w'))"
    using kos_step by blast
qed

theorem C10_session_key_witness:
  "sid_ok (stored_id (start empty_storage))
   \<and> list_all string_ids [Typed (js ''hi''), Send (js ''u1'') (js ''m1'') (js ''t1'') (js ''t2''),
                          Settle 0 reply_srv1 (js ''m2''), Delete (Some (JStr (js ''srv-1'')))]
   \<and> sid_ok (stored_id (run [Typed (js ''hi''), Send (js ''u1'') (js ''m1'') (js ''t1'') (js ''t2''),
                            Settle 0 reply_srv1 (js ''m2''), Delete (Some (JStr (js ''srv-1'')))]
                         (start empty_storage)))
   \<and> kept_or_set (stored_id (start empty_storage))
        (stored_id (step (Select (Some (JStr (js ''srv-1'')))) (start empty_storage)))"
proof -
  have h: "sid_ok (stored_id (start empty_storage))" by code_simp
  have l: "list_all string_ids [Typed (js ''hi''), Send (js ''u1'') (js ''m1'') (js ''t1'') (js ''t2''),
                          Settle 0 reply_srv1 (js ''m2''), Delete (Some (JStr (js ''srv-1'')))]"
    by code_simp
  have e: "\<not> is_delete (Select (Some (JStr (js ''srv-1''))))
           \<and> string_ids (Select (Some (JStr (js ''srv-1''))))"
    by (simp add: string_or_null_def)
  show ?thesis
    using h l e C10_session_key [OF h l, where ev = "Select (Some (JStr (js ''srv-1'')))"
                                        and w' = "start empty_storage"]
    by blast
qed

text \<open>
  The claim C10 as stated fails. \<^verbatim>\<open>setSessionId\<close> tests its argument with \<^verbatim>\<open>!id\<close>, and the
  empty array is truthy: \<^verbatim>\<open>localStorage.setItem\<close> stores its string form, which is the
  empty string. A response whose \<^verbatim>\<open>session_id\<close> is \<^verbatim>\<open>[]\<close> reaches \<^verbatim>\<open>setSessionId\<close> through
  the guard \<^verbatim>\<open>data?.session_id\<close> of \<^verbatim>\<open>sendChatMessage\<close>, and the key then holds the empty
  string.
\<close>

theorem C10_array_id_stores_empty_string:
  "getSessionId (setSessionId (Some (JArr [])) empty_storage) = Some []
   \<and> stored_id (start empty_storage) = None
   \<and> stored_id (run [Typed (js ''hi''), Send (js ''u1'') (js ''m1'') (js ''t1'') (js ''t2''),
                     Settle 0 reply_array_id (js ''m2'')] (start empty_storage)) = Some []"
  by code_simp

end
